theory Spec2Isabelle
  imports Complex_Main
begin

section \<open>Numbers, exceptions and the numpy operations the code calls\<close>

text \<open>
  The program computes with numpy float64 values. The sampling of a profile is embedded
  over exact reals: every arithmetic operation of the source is the same operation on
  \<open>real\<close>, without rounding. The zero point of the beam is embedded in float64, every
  operation rounded to the nearest double, because its value at a gantry angle of 180
  degrees is decided by the rounding of \<open>\<pi>\<close>. Where IEEE arithmetic yields a value that is
  not a real number (a division by zero gives inf or nan and raises nothing), the model
  returns the marker \<open>NonFinite\<close> instead of HOL's \<open>x / 0 = 0\<close>.

  Every exception the modelled code can raise is a value of \<open>error\<close>; a function that
  can raise returns \<open>error + 'a\<close> with \<open>Inl\<close> for the exception.
\<close>

datatype error =
    AssertionError string  \<comment> \<open>\<^verbatim>\<open>raise AssertionError(msg)\<close>\<close>
  | RelativeDoseNotSupported  \<comment> \<open>the \<^verbatim>\<open>ValueError\<close> raised for native units RELATIVE\<close>
  | InvalidDoseUnits string  \<comment> \<open>the \<^verbatim>\<open>ValueError\<close> raised for any other native unit\<close>
  | InterpolationMethodNotSupported  \<comment> \<open>the \<^verbatim>\<open>ValueError\<close> of set_interpolation_method\<close>
  | UnpackError  \<comment> \<open>\<^verbatim>\<open>ValueError\<close> of a tuple unpacking of the wrong length\<close>
  | BroadcastError  \<comment> \<open>\<^verbatim>\<open>ValueError\<close>: operands could not be broadcast together\<close>
  | CrossError  \<comment> \<open>\<^verbatim>\<open>ValueError\<close> of np.cross on vectors that are not 2- or 3-dimensional\<close>
  | AxesError  \<comment> \<open>\<^verbatim>\<open>ValueError\<close> of transpose: the axes do not match the array\<close>
  | OutOfBoundsError  \<comment> \<open>\<^verbatim>\<open>ValueError\<close> of an interpolator built with \<^verbatim>\<open>bounds_error=True\<close>\<close>
  | NegativeSamples  \<comment> \<open>\<^verbatim>\<open>ValueError\<close> of np.linspace for a negative number of samples\<close>
  | FloatToInt  \<comment> \<open>\<^verbatim>\<open>OverflowError\<close>/\<^verbatim>\<open>ValueError\<close> of int() on inf or nan\<close>
  | LinAlgError  \<comment> \<open>np.linalg.inv on a singular or non-square matrix\<close>
  | MatmulError  \<comment> \<open>\<^verbatim>\<open>ValueError\<close> of \<^verbatim>\<open>@\<close> on mismatching shapes\<close>
  | KeyError string
  | TypeError
  | IndexError
  | AttributeError
  | NonFinite  \<comment> \<open>not an exception: numpy returns inf or nan here, outside the reals\<close>

type_synonym vec = "real list"
type_synonym matrix = "real list list"

text \<open>\<^verbatim>\<open>a + b\<close> on one-dimensional arrays (or a list and an array), with broadcasting.\<close>

definition np_add :: "vec \<Rightarrow> vec \<Rightarrow> error + vec" where
  "np_add a b =
     (if length a = length b then Inr (map2 (+) a b)
      else if length a = 1 then Inr (map (\<lambda>y. hd a + y) b)
      else if length b = 1 then Inr (map (\<lambda>x. x + hd b) a)
      else Inl BroadcastError)"

text \<open>\<^verbatim>\<open>np.linalg.norm\<close> of a one-dimensional array.\<close>

definition np_linalg_norm :: "vec \<Rightarrow> real" where
  "np_linalg_norm v = sqrt (\<Sum>x\<leftarrow>v. x * x)"

text \<open>
  \<^verbatim>\<open>np.linspace(start, stop, num)\<close> with the default \<^verbatim>\<open>endpoint=True\<close>:
  \<^verbatim>\<open>
    if num < 0: raise ValueError
    div = num - 1
    y = arange(0, num)
    delta = stop - start
    if div > 0:
        step = delta / div
        y = y * step
    else:
        y = y * delta
    y += start
    if num > 1:
        y[-1] = stop
  \<close>
\<close>

definition np_linspace :: "real \<Rightarrow> real \<Rightarrow> int \<Rightarrow> error + real list" where
  "np_linspace start stop num =
     (if num < 0 then Inl NegativeSamples
      else
        let n = nat num;
            delta = stop - start;
            y = map real [0..<n];
            y = (if 1 < n then map (\<lambda>k. k * (delta / real (n - 1))) y
                 else map (\<lambda>k. k * delta) y);
            y = map (\<lambda>v. v + start) y
        in Inr (if 1 < n then y[n - 1 := stop] else y))"

subsection \<open>Determinant and inverse\<close>

definition del :: "nat \<Rightarrow> 'a list \<Rightarrow> 'a list" where
  "del j xs = take j xs @ drop (Suc j) xs"

text \<open>The determinant, by expansion along the first row.\<close>

fun det :: "matrix \<Rightarrow> real" where
  "det [] = 1"
| "det (r # rs) = (\<Sum>j\<leftarrow>[0..<length r]. (- 1) ^ j * r ! j * det (map (del j) rs))"

definition cofactor :: "matrix \<Rightarrow> nat \<Rightarrow> nat \<Rightarrow> real" where
  "cofactor M i j = (- 1) ^ (i + j) * det (map (del j) (del i M))"

text \<open>
  \<^verbatim>\<open>np.linalg.inv(M)\<close> in exact arithmetic: \<^verbatim>\<open>LinAlgError\<close> when \<open>M\<close> is not square or
  its determinant is zero, otherwise the transposed cofactor matrix over the determinant.
  (numpy factorises in float64 and raises when a pivot is exactly zero: the two agree on
  a matrix whose entries and intermediate results are exactly representable, as for the
  small integers used below, and can differ on a matrix that is singular only up to
  rounding.)
\<close>

definition np_linalg_inv :: "matrix \<Rightarrow> error + matrix" where
  "np_linalg_inv M =
     (let n = length M in
      if list_all (\<lambda>r. length r = n) M then
        (if det M = 0 then Inl LinAlgError
         else Inr (map (\<lambda>i. map (\<lambda>j. cofactor M j i / det M) [0..<n]) [0..<n]))
      else Inl LinAlgError)"

definition dot :: "vec \<Rightarrow> vec \<Rightarrow> real" where
  "dot a b = (\<Sum>(x, y)\<leftarrow>zip a b. x * y)"

definition matvec :: "matrix \<Rightarrow> vec \<Rightarrow> vec" where
  "matvec M v = map (\<lambda>row. dot row v) M"

section \<open>RTDoseReader (read\_rtdose.py)\<close>

text \<open>A three-dimensional integer array: its shape and its entries.\<close>

record ndarray3 =
  shape :: "nat \<times> nat \<times> nat"
  entry :: "nat \<Rightarrow> nat \<Rightarrow> nat \<Rightarrow> int"

text \<open>
  \<^verbatim>\<open>ds.pixel_array\<close>: a three-dimensional array (frames, rows, columns) for a multi-frame
  dose, a two-dimensional one (rows, columns) for a single frame.
\<close>

datatype pixel_data = Array2D "nat \<times> nat" "nat \<Rightarrow> nat \<Rightarrow> int" | Array3D ndarray3

text \<open>\<^verbatim>\<open>a.transpose((2, 1, 0))\<close>: three axes are named, so the array must have three.\<close>

definition transpose_210 :: "pixel_data \<Rightarrow> error + ndarray3" where
  "transpose_210 a =
     (case a of
        Array2D s e \<Rightarrow> Inl AxesError
      | Array3D b \<Rightarrow>
          (case shape b of (d0, d1, d2) \<Rightarrow>
             Inr \<lparr>shape = (d2, d1, d0), entry = (\<lambda>i j k. entry b k j i)\<rparr>))"

text \<open>
  The attributes of the RTDOSE dataset that the reader copies. A decimal attribute
  with several values is a sequence; with a single value pydicom delivers a number and
  with none it delivers \<^verbatim>\<open>None\<close>, neither of which can be indexed, sliced or unpacked.
\<close>

record rtdose_dataset =
  ImagePositionPatient :: vec
  ImageOrientationPatient :: vec
  PixelSpacing :: vec
  SliceThickness :: real
  DoseGridScaling :: real
  DoseUnits :: string
  ds_pixel_array :: pixel_data

datatype interp_method = Nearest | Linear

text \<open>
  A scipy \<^verbatim>\<open>RegularGridInterpolator\<close> over three axes, as its constructor stores it:
  the grid (here the three ranges \<^verbatim>\<open>range(dim[i])\<close>, given by their lengths), the array
  \<^verbatim>\<open>values\<close>, the \<^verbatim>\<open>method\<close>, and the two arguments that decide what happens outside the
  grid.
\<close>

record RegularGridInterpolator =
  grid :: "nat \<times> nat \<times> nat"
  rgi_values :: "nat \<Rightarrow> nat \<Rightarrow> nat \<Rightarrow> real"
  rgi_method :: interp_method
  bounds_error :: bool
  fill_value :: "real option"

text \<open>
  The fields of the class. \<open>interpolator\<close> is \<open>None\<close> until a
  \<^verbatim>\<open>RegularGridInterpolator\<close> has been configured.
\<close>

record RTDoseReader =
  ipp :: vec
  iop :: vec
  dose_grid_scaling :: real
  slice_thickness :: real
  pixel_spacing :: vec
  pixel_array :: ndarray3
  pixel_to_coords_matrix :: matrix
  interpolation_method :: interp_method
  interpolator :: "RegularGridInterpolator option"
  dose_units :: string

text \<open>\<^verbatim>\<open>np.cross\<close> of two three-dimensional vectors.\<close>

definition np_cross :: "vec \<Rightarrow> vec \<Rightarrow> vec" where
  "np_cross a b =
     [a ! 1 * b ! 2 - a ! 2 * b ! 1,
      a ! 2 * b ! 0 - a ! 0 * b ! 2,
      a ! 0 * b ! 1 - a ! 1 * b ! 0]"

text \<open>
  \<^verbatim>\<open>_dicom_pixel_to_patient_slice\<close> (DICOM equation C.7.6.2.1-1). The position is
  unpacked into three values; the orientation is sliced into \<^verbatim>\<open>[:3]\<close> and \<^verbatim>\<open>[3:]\<close>.
  With six orientation values both slices are 3-vectors. With five, np.cross accepts
  the 2-vector and the read of \<^verbatim>\<open>iop_y[2]\<close> fails; with two, three, four or more than
  six np.cross fails. A position or an orientation with fewer than two values is not a
  sequence. No other check is made: the matrix is returned as computed.
\<close>

definition dicom_pixel_to_patient_slice ::
    "vec \<Rightarrow> vec \<Rightarrow> real \<Rightarrow> real \<Rightarrow> real \<Rightarrow> error + matrix" where
  "dicom_pixel_to_patient_slice image_position_patient image_orientation_patient
       row_pixel_spacing column_pixel_spacing slice_thickness' =
     (if length image_position_patient < 2 then Inl TypeError
      else if length image_position_patient = 3 then
        (let ipp_x = image_position_patient ! 0;
             ipp_y = image_position_patient ! 1;
             ipp_z = image_position_patient ! 2;
             iop_x = take 3 image_orientation_patient;
             iop_y = drop 3 image_orientation_patient
         in if length image_orientation_patient < 2 then Inl TypeError
            else if length image_orientation_patient = 6 then
              (let z_orientation = np_cross iop_x iop_y
               in Inr
                 [[iop_x ! 0 * column_pixel_spacing, iop_y ! 0 * row_pixel_spacing,
                   z_orientation ! 0 * slice_thickness', ipp_x],
                  [iop_x ! 1 * column_pixel_spacing, iop_y ! 1 * row_pixel_spacing,
                   z_orientation ! 1 * slice_thickness', ipp_y],
                  [iop_x ! 2 * column_pixel_spacing, iop_y ! 2 * row_pixel_spacing,
                   z_orientation ! 2 * slice_thickness', ipp_z],
                  [0, 0, 0, 1]])
            else if length image_orientation_patient = 5 then Inl IndexError
            else Inl CrossError)
      else Inl UnpackError)"

text \<open>
  \<^verbatim>\<open>_configure_dose_array\<close>, run by the constructor on a dataset: it copies the
  attributes, transposes the pixel array, reads the two pixel spacings and builds the
  matrix, in this order. The other fields keep the constructor's defaults (method
  \<^verbatim>\<open>'linear'\<close>, no interpolator).
  \<^verbatim>\<open>
        self._pixel_array = self._ds.pixel_array
        self._pixel_array = self._pixel_array.transpose((2, 1, 0))
        self._pixel_to_coords_matrix = self._dicom_pixel_to_patient_slice(
            self._ipp, self._iop, self._pixel_spacing[0], self._pixel_spacing[1],
            self._slice_thickness)
  \<close>
\<close>

definition configure_dose_array :: "rtdose_dataset \<Rightarrow> error + RTDoseReader" where
  "configure_dose_array ds =
     (case transpose_210 (ds_pixel_array ds) of
        Inl e \<Rightarrow> Inl e
      | Inr pixels \<Rightarrow>
          if length (PixelSpacing ds) < 2 then Inl TypeError
          else
            (case dicom_pixel_to_patient_slice (ImagePositionPatient ds)
                    (ImageOrientationPatient ds) (PixelSpacing ds ! 0) (PixelSpacing ds ! 1)
                    (SliceThickness ds) of
               Inl e \<Rightarrow> Inl e
             | Inr m \<Rightarrow>
                 Inr \<lparr>ipp = ImagePositionPatient ds,
                      iop = ImageOrientationPatient ds,
                      dose_grid_scaling = DoseGridScaling ds,
                      slice_thickness = SliceThickness ds,
                      pixel_spacing = PixelSpacing ds,
                      pixel_array = pixels,
                      pixel_to_coords_matrix = m,
                      interpolation_method = Linear,
                      interpolator = None,
                      dose_units = DoseUnits ds\<rparr>))"

text \<open>The property \<^verbatim>\<open>dose_array\<close>: \<^verbatim>\<open>self._pixel_array * self._dose_grid_scaling\<close>.\<close>

definition dose_array :: "RTDoseReader \<Rightarrow> nat \<Rightarrow> nat \<Rightarrow> nat \<Rightarrow> real" where
  "dose_array self i j k = real_of_int (entry (pixel_array self) i j k) * dose_grid_scaling self"

text \<open>The property \<^verbatim>\<open>xyz_to_ijk\<close>: the inverse is computed at every access.\<close>

definition xyz_to_ijk :: "RTDoseReader \<Rightarrow> error + matrix" where
  "xyz_to_ijk self = np_linalg_inv (pixel_to_coords_matrix self)"

subsection \<open>The grid interpolator\<close>

text \<open>
  Calling a \<^verbatim>\<open>RegularGridInterpolator\<close> on an array of points, for a grid with at least
  one node along every axis. Along one axis of \<open>n\<close> nodes \<open>0, \<dots>, n - 1\<close> a coordinate
  \<open>x\<close> is assigned the cell that starts at node \<open>i\<close> (the first cell below the grid, the
  last cell above it) and the normalised distance \<open>t\<close> from that node; the last cell is
  closed on the right.
\<close>

definition axis_cell :: "nat \<Rightarrow> real \<Rightarrow> nat \<times> real" where
  "axis_cell n x =
     (if n \<le> 1 then (0, 0)
      else let i = min (nat \<lfloor>x\<rfloor>) (n - 2) in (i, x - real i))"

text \<open>
  A point is out of bounds when some coordinate is below the first node or above the
  last node of its axis.
\<close>

definition out_of_bounds :: "nat \<times> nat \<times> nat \<Rightarrow> vec \<Rightarrow> bool" where
  "out_of_bounds dims p =
     (case dims of (d0, d1, d2) \<Rightarrow>
        p ! 0 < 0 \<or> real d0 - 1 < p ! 0 \<or>
        p ! 1 < 0 \<or> real d1 - 1 < p ! 1 \<or>
        p ! 2 < 0 \<or> real d2 - 1 < p ! 2)"

text \<open>
  The nearest kernel takes, along each axis, the lower node when the normalised distance
  is at most one half. The linear kernel weights the eight corners of the cell. Outside
  the grid both extrapolate from the first or the last cell.
\<close>

definition evaluate_nearest :: "(nat \<Rightarrow> nat \<Rightarrow> nat \<Rightarrow> real) \<Rightarrow> nat \<times> nat \<times> nat \<Rightarrow> vec \<Rightarrow> real" where
  "evaluate_nearest vals dims p =
     (case dims of (d0, d1, d2) \<Rightarrow>
        case axis_cell d0 (p ! 0) of (i, s) \<Rightarrow>
        case axis_cell d1 (p ! 1) of (j, t) \<Rightarrow>
        case axis_cell d2 (p ! 2) of (k, u) \<Rightarrow>
          vals (if s \<le> 1 / 2 then i else i + 1)
               (if t \<le> 1 / 2 then j else j + 1)
               (if u \<le> 1 / 2 then k else k + 1))"

definition evaluate_linear :: "(nat \<Rightarrow> nat \<Rightarrow> nat \<Rightarrow> real) \<Rightarrow> nat \<times> nat \<times> nat \<Rightarrow> vec \<Rightarrow> real" where
  "evaluate_linear vals dims p =
     (case dims of (d0, d1, d2) \<Rightarrow>
        case axis_cell d0 (p ! 0) of (i, s) \<Rightarrow>
        case axis_cell d1 (p ! 1) of (j, t) \<Rightarrow>
        case axis_cell d2 (p ! 2) of (k, u) \<Rightarrow>
          (\<Sum>a\<leftarrow>[0, 1]. \<Sum>b\<leftarrow>[0, 1]. \<Sum>c\<leftarrow>[0, 1].
             (if a = 0 then 1 - s else s) * (if b = 0 then 1 - t else t) *
             (if c = 0 then 1 - u else u) * vals (i + a) (j + b) (k + c)))"

text \<open>
  \<^verbatim>\<open>
    def __call__(self, xi, method=None):
        ...
        if self.bounds_error:
            for i, p in enumerate(xi.T):
                if not np.logical_and(np.all(self.grid[i][0] <= p),
                                      np.all(p <= self.grid[i][-1])):
                    raise ValueError("One of the requested xi is out of bounds "
                                     "in dimension %d" % i)
        indices, norm_distances, out_of_bounds = self._find_indices(xi.T)
        if method == "linear":
            result = self._evaluate_linear(indices, norm_distances, out_of_bounds)
        elif method == "nearest":
            result = self._evaluate_nearest(indices, norm_distances, out_of_bounds)
        if not self.bounds_error and self.fill_value is not None:
            result[out_of_bounds] = self.fill_value
        return result
  \<close>
  The points \<open>xi\<close> are the rows of an array with three columns.
\<close>

definition RegularGridInterpolator_call :: "RegularGridInterpolator \<Rightarrow> vec list \<Rightarrow> error + real list" where
  "RegularGridInterpolator_call f xi =
     (if bounds_error f \<and> list_ex (out_of_bounds (grid f)) xi then Inl OutOfBoundsError
      else
        Inr (map (\<lambda>p.
               let result = (case rgi_method f of
                               Nearest \<Rightarrow> evaluate_nearest (rgi_values f) (grid f) p
                             | Linear \<Rightarrow> evaluate_linear (rgi_values f) (grid f) p)
               in case fill_value f of
                    None \<Rightarrow> result
                  | Some fill \<Rightarrow>
                      if \<not> bounds_error f \<and> out_of_bounds (grid f) p then fill else result)
             xi))"

text \<open>
  \<^verbatim>\<open>
    def _configure_interpolator(self):
        dose = self.dose_array
        dim = dose.shape
        self._interpolator = RegularGridInterpolator(
            [range(dim[0]), range(dim[1]), range(dim[2])],
            dose,
            method=self._interpolation_method,
            bounds_error=False,
            fill_value=0
        )
  \<close>
\<close>

definition configure_interpolator :: "RTDoseReader \<Rightarrow> RTDoseReader" where
  "configure_interpolator self =
     self\<lparr>interpolator :=
            Some \<lparr>grid = shape (pixel_array self),
                  rgi_values = dose_array self,
                  rgi_method = interpolation_method self,
                  bounds_error = False,
                  fill_value = Some 0\<rparr>\<rparr>"

text \<open>
  \<^verbatim>\<open>self._interpolator(xi)\<close>: the call of the configured interpolator; \<^verbatim>\<open>None\<close> is not
  callable.
\<close>

definition interpolator_call :: "RTDoseReader \<Rightarrow> vec list \<Rightarrow> error + real list" where
  "interpolator_call self xi =
     (case interpolator self of
        None \<Rightarrow> Inl TypeError
      | Some f \<Rightarrow> RegularGridInterpolator_call f xi)"

text \<open>
  \<^verbatim>\<open>
    def set_interpolation_method(self, method):
        if method not in self._interpolation_method_options:
            raise ValueError(...)
        else:
            self._interpolation_method = method
            self._configure_interpolator()
  \<close>
\<close>

definition set_interpolation_method :: "RTDoseReader \<Rightarrow> string \<Rightarrow> error + RTDoseReader" where
  "set_interpolation_method self name =
     (if name = ''nearest'' then
        Inr (configure_interpolator (self\<lparr>interpolation_method := Nearest\<rparr>))
      else if name = ''linear'' then
        Inr (configure_interpolator (self\<lparr>interpolation_method := Linear\<rparr>))
      else Inl InterpolationMethodNotSupported)"

subsection \<open>get\_profile\<close>

text \<open>
  What the method returns besides \<^verbatim>\<open>None\<close>: the one-dimensional array of doses, or with
  \<^verbatim>\<open>return_coords\<close> the array of rows \<open>(x, y, z, dose)\<close>.
\<close>

type_synonym row = "real \<times> real \<times> real \<times> real"

datatype profile = Doses "real list" | Rows "row list"

text \<open>The three \<^verbatim>\<open>np.linspace\<close> calls of the method, in their order.\<close>

definition linspace_xyz :: "vec \<Rightarrow> vec \<Rightarrow> int \<Rightarrow> error + real list \<times> real list \<times> real list" where
  "linspace_xyz p0 p1 samples =
     (case np_linspace (p0 ! 0) (p1 ! 0) samples of
        Inl e \<Rightarrow> Inl e
      | Inr xs \<Rightarrow>
          (case np_linspace (p0 ! 1) (p1 ! 1) samples of
             Inl e \<Rightarrow> Inl e
           | Inr ys \<Rightarrow>
               (case np_linspace (p0 ! 2) (p1 ! 2) samples of
                  Inl e \<Rightarrow> Inl e
                | Inr zs \<Rightarrow> Inr (xs, ys, zs))))"

text \<open>
  \<^verbatim>\<open>int(dist // spacing) + 1\<close>. The floor division of floats by zero gives inf or nan,
  which int() refuses.
\<close>

definition sample_count :: "real \<Rightarrow> real \<Rightarrow> error + int" where
  "sample_count distance spacing =
     (if spacing = 0 then Inl FloatToInt else Inr (\<lfloor>distance / spacing\<rfloor> + 1))"

text \<open>
  \<^verbatim>\<open>
    def get_profile(self, p0=None, p1=None, spacing=1.0, return_coords=False):
        if p0 is not None and p1 is not None:
            if len(p0) != len(p1):
                raise AssertionError('p0 must be the same length as p1')
            else:
                p0 = np.asarray(p0); p1 = np.asarray(p1)
                x0, y0, z0 = p0
                x1, y1, z1 = p1
                dist = np.linalg.norm(p1 - p0)
                samples = int(dist // spacing) + 1
                xs = np.linspace(x0, x1, samples)
                ys = np.linspace(y0, y1, samples)
                zs = np.linspace(z0, z1, samples)
                line_xyz = np.vstack([xs, ys, zs, np.ones_like(xs)])
                line_ijk = (np.linalg.inv(self._pixel_to_coords_matrix) @ line_xyz)[:3, :]
                if self._interpolator is None:
                    self._configure_interpolator()
                ...
                    dose_ijk = self._interpolator(line_ijk.T)
                    if not return_coords:
                        return dose_ijk
                    else:
                        return np.vstack([xs, ys, zs, dose_ijk]).T
  \<close>
  The method returns its value together with the reader, whose interpolator it may have
  configured. The exceptions of the sampling are raised before that assignment, and an
  interpolator that the method configured itself raises nothing, so a failing call
  leaves the reader as it was. The test that the interpolator is a
  \<^verbatim>\<open>RegularGridInterpolator\<close> always holds once it is configured.
\<close>

definition RTDoseReader_get_profile ::
    "RTDoseReader \<Rightarrow> vec option \<Rightarrow> vec option \<Rightarrow> real \<Rightarrow> bool
       \<Rightarrow> error + profile option \<times> RTDoseReader" where
  "RTDoseReader_get_profile self p0 p1 spacing return_coords =
     (case p0 of
        None \<Rightarrow> Inr (None, self)
      | Some a \<Rightarrow>
          (case p1 of
             None \<Rightarrow> Inr (None, self)
           | Some b \<Rightarrow>
               if length a = length b then
                 (if length a = 3 then
                    (case sample_count (np_linalg_norm (map2 (-) b a)) spacing of
                       Inl e \<Rightarrow> Inl e
                     | Inr samples \<Rightarrow>
                         (case linspace_xyz a b samples of
                            Inl e \<Rightarrow> Inl e
                          | Inr (xs, ys, zs) \<Rightarrow>
                              (case np_linalg_inv (pixel_to_coords_matrix self) of
                                 Inl e \<Rightarrow> Inl e
                               | Inr minv \<Rightarrow>
                                   if length minv = 4 then
                                     (let line_ijk =
                                            map (\<lambda>(x, y, z). matvec (take 3 minv) [x, y, z, 1])
                                              (zip xs (zip ys zs));
                                          self' = (if interpolator self = None
                                                   then configure_interpolator self else self)
                                      in case interpolator_call self' line_ijk of
                                           Inl e \<Rightarrow> Inl e
                                         | Inr dose_ijk \<Rightarrow>
                                             Inr (Some (if return_coords
                                                        then Rows (zip xs (zip ys (zip zs dose_ijk)))
                                                        else Doses dose_ijk), self'))
                                   else Inl MatmulError)))
                  else Inl UnpackError)
               else Inl (AssertionError ''p0 must be the same length as p1'')))"

section \<open>RTPlanReader (read\_rtplan.py)\<close>

text \<open>
  A beam parameter read from the plan is a decimal number (monitor units, SSD, SAD,
  gantry angle) or a sequence of them (the isocenter).
\<close>

datatype pval = Num real | Seq "real list"

text \<open>
  The reader keeps a dictionary from five parameter names to the tag path of each
  parameter; Python dictionaries keep the order of insertion.
  \<^verbatim>\<open>
        self._beam_parameters: dict = {
            "Isocenter": {"tag": [(0x300A, 0x00B0), (0x300A, 0x0111), (0x300A, 0x012C)]},
            "Monitor Units": {"tag": [(0x300A, 0x00B0), (0x300A, 0x010E)]},
            "SSD": {"tag": [(0x300A, 0x00B0), (0x300A, 0x0111), (0x300A, 0x0130)]},
            "SAD": {"tag": [(0x300A, 0x00B0), (0x300A, 0x00B4)]},
            "Gantry Angle": {"tag": [(0x300A, 0x00B0), (0x300A, 0x0111), (0x300A, 0x011E)]},
        }
  \<close>
\<close>

definition beam_parameter_keys :: "string list" where
  "beam_parameter_keys = [''Isocenter'', ''Monitor Units'', ''SSD'', ''SAD'', ''Gantry Angle'']"

text \<open>
  An RTPLAN dataset, as far as the reader looks at it: for each parameter name, what
  following its tag path gives, the value of the element or the exception raised on the
  way (\<^verbatim>\<open>KeyError\<close> for a tag that is not there, \<^verbatim>\<open>IndexError\<close> for an empty sequence).
\<close>

type_synonym plan_dataset = "string \<Rightarrow> error + pval"

text \<open>
  The fields of the class: the dataset \<^verbatim>\<open>_ds\<close>, and the values read so far. The
  property \<^verbatim>\<open>beam_parameters\<close> is the dictionary from the parameter names that have a
  \<^verbatim>\<open>"value"\<close> to that value.
\<close>

record RTPlanReader =
  plan_ds :: "plan_dataset option"
  beam_parameters :: "string \<Rightarrow> pval option"

text \<open>
  \<^verbatim>\<open>
    def read_beam_parameters_from_dataset(self):
        for key in self._beam_parameters:
            contents = self._ds
            tag_string = self._beam_parameters[key]["tag"]
            for i, tag in enumerate(tag_string):
                if i < len(tag_string) - 1:
                    contents = contents[tag][0]
                else:
                    contents = contents[tag]
            self._beam_parameters[key]["value"] = contents.value
  \<close>
  The loop stops at the first parameter whose path raises; the values assigned before
  stay. A method that can raise after changing the object returns the exception, if any,
  with the object.
\<close>

fun read_keys ::
    "plan_dataset \<Rightarrow> string list \<Rightarrow> (string \<Rightarrow> pval option)
       \<Rightarrow> error option \<times> (string \<Rightarrow> pval option)" where
  "read_keys contents [] params = (None, params)"
| "read_keys contents (key # keys) params =
     (case contents key of
        Inl e \<Rightarrow> (Some e, params)
      | Inr v \<Rightarrow> read_keys contents keys (params(key \<mapsto> v)))"

definition read_beam_parameters_from_dataset :: "RTPlanReader \<Rightarrow> error option \<times> RTPlanReader" where
  "read_beam_parameters_from_dataset self =
     (case plan_ds self of
        None \<Rightarrow> (Some TypeError, self)
      | Some contents \<Rightarrow>
          (case read_keys contents beam_parameter_keys (beam_parameters self) of
             (e, params) \<Rightarrow> (e, self\<lparr>beam_parameters := params\<rparr>)))"

text \<open>
  \<^verbatim>\<open>
    def load_dataset(self):
        if isinstance(self._ds, pydicom.Dataset):
            self.read_beam_parameters_from_dataset()
        else:
            if self._fp is not None:
                if isinstance(self._fp, str):
                    if os.path.exists(self._fp):
                        self._ds = pydicom.dcmread(self._fp)
                        self.read_beam_parameters_from_dataset()
  \<close>
  The argument \<open>stored\<close> is the dataset that \<^verbatim>\<open>self._fp\<close> names, \<open>None\<close> when it is not
  the path of an existing file. A reader that already has a dataset reads that one again.
\<close>

definition load_dataset :: "plan_dataset option \<Rightarrow> RTPlanReader \<Rightarrow> error option \<times> RTPlanReader" where
  "load_dataset stored self =
     (case plan_ds self of
        Some contents \<Rightarrow> read_beam_parameters_from_dataset self
      | None \<Rightarrow>
          (case stored of
             None \<Rightarrow> (None, self)
           | Some contents \<Rightarrow> read_beam_parameters_from_dataset (self\<lparr>plan_ds := Some contents\<rparr>)))"

text \<open>\<^verbatim>\<open>load_file(fp)\<close> stores the path and loads.\<close>

definition load_file :: "plan_dataset option \<Rightarrow> RTPlanReader \<Rightarrow> error option \<times> RTPlanReader" where
  "load_file stored self = load_dataset stored self"

text \<open>
  The constructor \<^verbatim>\<open>RTPlanReader(fp, ds)\<close>: no value is set, then the dataset is
  loaded. When that raises, the caller receives the exception and no reader.
\<close>

definition RTPlanReader_init :: "plan_dataset option \<Rightarrow> plan_dataset option \<Rightarrow> error + RTPlanReader" where
  "RTPlanReader_init stored dataset =
     (case load_dataset stored \<lparr>plan_ds = dataset, beam_parameters = Map.empty\<rparr> of
        (None, self) \<Rightarrow> Inr self
      | (Some e, self) \<Rightarrow> Inl e)"

text \<open>
  The readers a program can hold: one returned by the constructor, and whatever the
  public methods make of it, also when they raise.
\<close>

inductive reachable :: "RTPlanReader \<Rightarrow> bool" where
  constructed: "RTPlanReader_init stored dataset = Inr self \<Longrightarrow> reachable self"
| loaded: "reachable self \<Longrightarrow> load_file stored self = (e, self') \<Longrightarrow> reachable self'"
| read_again:
    "reachable self \<Longrightarrow> read_beam_parameters_from_dataset self = (e, self') \<Longrightarrow> reachable self'"

text \<open>\<^verbatim>\<open>d[key]\<close>, \<^verbatim>\<open>float(v)\<close> and \<^verbatim>\<open>[float(v) for v in vs]\<close>.\<close>

definition getitem :: "(string \<Rightarrow> pval option) \<Rightarrow> string \<Rightarrow> error + pval" where
  "getitem d key = (case d key of None \<Rightarrow> Inl (KeyError key) | Some v \<Rightarrow> Inr v)"

definition py_float :: "pval \<Rightarrow> error + real" where
  "py_float v = (case v of Num x \<Rightarrow> Inr x | Seq xs \<Rightarrow> Inl TypeError)"

definition float_each :: "pval \<Rightarrow> error + real list" where
  "float_each v = (case v of Num x \<Rightarrow> Inl TypeError | Seq xs \<Rightarrow> Inr xs)"

section \<open>ProfileTool (profiles\_from\_dicom.py)\<close>

text \<open>
  The two readers of the tool. \<open>None\<close> stands for an attribute that does not hold an
  \<^verbatim>\<open>RTDoseReader\<close> (an \<^verbatim>\<open>RTPlanReader\<close>).
\<close>

record ProfileTool =
  dose_reader :: "RTDoseReader option"
  plan_reader :: "RTPlanReader option"


subsection \<open>float64 arithmetic of the zero point\<close>

text \<open>
  A double has 53 significant bits and a binary exponent of at least \<open>-1022\<close>. The result
  of an operation is the exact result rounded to the nearest double, a tie to the one
  with the even significand. With \<open>e\<close> the binary exponent of \<open>x\<close>, the doubles around \<open>x\<close>
  are the integer multiples of \<open>2 ^ (e - 52)\<close>. (Results beyond the largest double, which
  IEEE arithmetic turns into inf, are far from the magnitudes of a treatment plan and
  are not modelled.)
\<close>

definition pow2 :: "int \<Rightarrow> real" where
  "pow2 e = (if 0 \<le> e then 2 ^ nat e else 1 / 2 ^ nat (- e))"

definition round_half_even :: "real \<Rightarrow> int" where
  "round_half_even q =
     (let f = \<lfloor>q\<rfloor>; r = q - of_int f in
      if r < 1 / 2 then f else if 1 / 2 < r then f + 1 else if even f then f else f + 1)"

definition float64_exponent :: "real \<Rightarrow> int" where
  "float64_exponent x = max \<lfloor>log 2 \<bar>x\<bar>\<rfloor> (- 1022)"

definition round64 :: "real \<Rightarrow> real" where
  "round64 x =
     (if x = 0 then 0
      else let ulp = pow2 (float64_exponent x - 52)
           in of_int (round_half_even (x / ulp)) * ulp)"

text \<open>\<^verbatim>\<open>a + b\<close>, \<^verbatim>\<open>a - b\<close> and \<^verbatim>\<open>a * b\<close> on two doubles.\<close>

definition float64_add :: "real \<Rightarrow> real \<Rightarrow> real" where
  "float64_add a b = round64 (a + b)"

definition float64_sub :: "real \<Rightarrow> real \<Rightarrow> real" where
  "float64_sub a b = round64 (a - b)"

definition float64_mul :: "real \<Rightarrow> real \<Rightarrow> real" where
  "float64_mul a b = round64 (a * b)"

text \<open>
  \<^verbatim>\<open>np.radians\<close> multiplies by a constant of numpy's C code,
  \<^verbatim>\<open>
    #define NPY_PI 3.141592653589793238462643383279502884
    #define DEG2RAD (NPY_PI/180.0)
    npy_deg2rad(x) { return x*DEG2RAD; }
  \<close>
  where \<^verbatim>\<open>NPY_PI\<close> is the double nearest to \<open>\<pi>\<close>, \<^verbatim>\<open>0x1.921fb54442d18p+1\<close>.
\<close>

definition NPY_PI :: real where
  "NPY_PI = 884279719003555 / 2 ^ 48"

definition DEG2RAD :: real where
  "DEG2RAD = round64 (NPY_PI / 180)"

definition np_radians :: "real \<Rightarrow> real" where
  "np_radians x = round64 (x * DEG2RAD)"

text \<open>
  \<^verbatim>\<open>np.sin\<close> and \<^verbatim>\<open>np.cos\<close> on a double: the double nearest to the exact sine and
  cosine, which is what an accurate mathematical library returns.
\<close>

definition np_sin :: "real \<Rightarrow> real" where
  "np_sin x = round64 (sin x)"

definition np_cos :: "real \<Rightarrow> real" where
  "np_cos x = round64 (cos x)"

text \<open>
  \<^verbatim>\<open>
    def get_zero_point(self, mode='INTERCEPT_CAX_SURFACE') -> list:
        if mode == 'INTERCEPT_CAX_SURFACE':
            beam_params_dict = self._plan_reader.beam_parameters
            if not all([key in beam_params_dict for key in ['Isocenter', 'Gantry Angle', 'SSD']]):
                return None
            else:
                iso = [float(v) for v in beam_params_dict['Isocenter']]
                gantry_angle = float(beam_params_dict['Gantry Angle'])
                ssd = float(beam_params_dict['SSD'])
                sad = float(beam_params_dict['SAD'])
                x_zero_pt = iso[0] - (ssd - sad) * np.sin(np.radians(gantry_angle))
                y_zero_pt = iso[1] + (ssd - sad) * np.cos(np.radians(gantry_angle))
                z_zero_pt = iso[2]
                return [x_zero_pt, y_zero_pt, z_zero_pt]
  \<close>
  Any other mode falls through and returns \<^verbatim>\<open>None\<close>.
\<close>

definition get_zero_point :: "ProfileTool \<Rightarrow> string \<Rightarrow> error + vec option" where
  "get_zero_point self mode =
     (if mode = ''INTERCEPT_CAX_SURFACE'' then
        (case plan_reader self of
           None \<Rightarrow> Inl AttributeError
         | Some plan \<Rightarrow>
             (let beam_params_dict = beam_parameters plan in
              if list_all (\<lambda>key. beam_params_dict key \<noteq> None)
                   [''Isocenter'', ''Gantry Angle'', ''SSD''] then
                (case getitem beam_params_dict ''Isocenter'' of Inl e \<Rightarrow> Inl e | Inr v0 \<Rightarrow>
                (case float_each v0 of Inl e \<Rightarrow> Inl e | Inr iso' \<Rightarrow>
                (case getitem beam_params_dict ''Gantry Angle'' of Inl e \<Rightarrow> Inl e | Inr v1 \<Rightarrow>
                (case py_float v1 of Inl e \<Rightarrow> Inl e | Inr gantry_angle \<Rightarrow>
                (case getitem beam_params_dict ''SSD'' of Inl e \<Rightarrow> Inl e | Inr v2 \<Rightarrow>
                (case py_float v2 of Inl e \<Rightarrow> Inl e | Inr ssd \<Rightarrow>
                (case getitem beam_params_dict ''SAD'' of Inl e \<Rightarrow> Inl e | Inr v3 \<Rightarrow>
                (case py_float v3 of Inl e \<Rightarrow> Inl e | Inr sad \<Rightarrow>
                   if length iso' < 3 then Inl IndexError
                   else Inr (Some
                     [float64_sub (iso' ! 0)
                        (float64_mul (float64_sub ssd sad) (np_sin (np_radians gantry_angle))),
                      float64_add (iso' ! 1)
                        (float64_mul (float64_sub ssd sad) (np_cos (np_radians gantry_angle))),
                      iso' ! 2])))))))))
              else Inr None))
      else Inr None)"

subsection \<open>The zero point of a profile\<close>

text \<open>
  The argument \<^verbatim>\<open>zero_point\<close> is \<^verbatim>\<open>None\<close>, a string, or a list or tuple of numbers.
  After the first statement of \<^verbatim>\<open>get_profile\<close> it is an array: of numbers, of one
  string, or the zero-dimensional object array \<^verbatim>\<open>np.asarray(None)\<close> when the derivation
  returned \<^verbatim>\<open>None\<close>.
  \<^verbatim>\<open>
        if zero_point is None:
            zero_point = np.asarray([0, 0, 0])
        elif zero_point == 'default':
            zero_point = np.asarray(self.get_zero_point(mode='INTERCEPT_CAX_SURFACE'))
        else:
            zero_point = np.asarray(zero_point)
  \<close>
\<close>

datatype zero_point_arg = ZNone | ZStr string | ZPoint vec

datatype zero_point_array = NoneObject | StrArray | Vector vec

definition resolve_zero_point :: "ProfileTool \<Rightarrow> zero_point_arg \<Rightarrow> error + zero_point_array" where
  "resolve_zero_point self zero_point =
     (case zero_point of
        ZNone \<Rightarrow> Inr (Vector [0, 0, 0])
      | ZStr s \<Rightarrow>
          if s = ''default'' then
            (case get_zero_point self ''INTERCEPT_CAX_SURFACE'' of
               Inl e \<Rightarrow> Inl e
             | Inr None \<Rightarrow> Inr NoneObject
             | Inr (Some v) \<Rightarrow> Inr (Vector v))
          else Inr StrArray
      | ZPoint v \<Rightarrow> Inr (Vector v))"

text \<open>
  \<^verbatim>\<open>p + zero_point\<close>: adding \<^verbatim>\<open>None\<close> to a number is a TypeError (an empty \<open>p\<close> adds
  nothing), and so is adding a string array.
\<close>

definition add_zero_point :: "vec \<Rightarrow> zero_point_array \<Rightarrow> error + vec" where
  "add_zero_point p zero_point =
     (case zero_point of
        NoneObject \<Rightarrow> if p = [] then Inr [] else Inl TypeError
      | StrArray \<Rightarrow> Inl TypeError
      | Vector z \<Rightarrow> np_add p z)"

text \<open>
  \<^verbatim>\<open>profile[:, :3] = profile[:, :3] - zero_point[None, :]\<close>: the zero point is broadcast
  against the three coordinate columns. A zero-dimensional array has no second axis to
  index.
\<close>

definition subtract_zero_point :: "zero_point_array \<Rightarrow> row list \<Rightarrow> error + row list" where
  "subtract_zero_point zero_point rows =
     (case zero_point of
        Vector z \<Rightarrow>
          if length z = 3 then
            Inr (map (\<lambda>(x, y, z', d). (x - z ! 0, y - z ! 1, z' - z ! 2, d)) rows)
          else if length z = 1 then
            Inr (map (\<lambda>(x, y, z', d). (x - hd z, y - hd z, z' - hd z, d)) rows)
          else Inl BroadcastError
      | _ \<Rightarrow> Inl IndexError)"

subsection \<open>Dose units and monitor units\<close>

text \<open>\<^verbatim>\<open>str.upper\<close> on ASCII strings.\<close>

definition upper_char :: "char \<Rightarrow> char" where
  "upper_char c =
     (case map_of (zip ''abcdefghijklmnopqrstuvwxyz'' ''ABCDEFGHIJKLMNOPQRSTUVWXYZ'') c of
        Some u \<Rightarrow> u
      | None \<Rightarrow> c)"

definition upper :: "string \<Rightarrow> string" where
  "upper s = map upper_char s"

definition scale_dose :: "real \<Rightarrow> row \<Rightarrow> row" where
  "scale_dose c r = (case r of (x, y, z, d) \<Rightarrow> (x, y, z, d * c))"

definition divide_dose :: "real \<Rightarrow> row \<Rightarrow> row" where
  "divide_dose c r = (case r of (x, y, z, d) \<Rightarrow> (x, y, z, d / c))"

text \<open>
  \<^verbatim>\<open>
            if self._dose_reader.dose_units == 'GY':
                if profile_dose_units.upper() == 'CGY':
                    profile[:, 3] = profile[:, 3] * 100
            elif self._dose_reader.dose_units == 'RELATIVE':
                raise ValueError('DICOM dose units == RELATIVE. Relative dose not supported.')
            else:
                raise ValueError(f'Invalid dose units {self._dose_reader.dose_units}')
  \<close>
\<close>

definition convert_dose_units :: "string \<Rightarrow> string \<Rightarrow> row list \<Rightarrow> error + row list" where
  "convert_dose_units native profile_dose_units rows =
     (if native = ''GY'' then
        (if upper profile_dose_units = ''CGY'' then Inr (map (scale_dose 100) rows)
         else Inr rows)
      else if native = ''RELATIVE'' then Inl RelativeDoseNotSupported
      else Inl (InvalidDoseUnits native))"

text \<open>
  \<^verbatim>\<open>
            if normalize_by_monitor_units:
                if isinstance(self._plan_reader, RTPlanReader):
                    if 'Monitor Units' in self._plan_reader.beam_parameters:
                        monitor_units = float(self._plan_reader.beam_parameters['Monitor Units'])
                        profile[:, 3] = profile[:, 3] / monitor_units
  \<close>
  A division by zero monitor units raises nothing in numpy and gives values that are
  not real numbers.
\<close>

definition normalize_profile :: "ProfileTool \<Rightarrow> bool \<Rightarrow> row list \<Rightarrow> error + row list" where
  "normalize_profile self normalize_by_monitor_units rows =
     (if normalize_by_monitor_units then
        (case plan_reader self of
           None \<Rightarrow> Inr rows
         | Some plan \<Rightarrow>
             (case beam_parameters plan ''Monitor Units'' of
                None \<Rightarrow> Inr rows
              | Some v \<Rightarrow>
                  (case py_float v of
                     Inl e \<Rightarrow> Inl e
                   | Inr monitor_units \<Rightarrow>
                       if monitor_units = 0 then Inl NonFinite
                       else Inr (map (divide_dose monitor_units) rows))))
      else Inr rows)"

subsection \<open>get\_profile\<close>

text \<open>
  The statements of \<^verbatim>\<open>ProfileTool.get_profile\<close> after the dose reader has returned:
  the coordinates are shifted back, then the dose units are converted, then the doses
  are normalised. Without \<^verbatim>\<open>return_coords\<close> the reader's result is one-dimensional and
  \<^verbatim>\<open>profile[:, :3]\<close> is an IndexError.
\<close>

definition finish_profile ::
    "ProfileTool \<Rightarrow> string \<Rightarrow> zero_point_array \<Rightarrow> string \<Rightarrow> bool \<Rightarrow> profile option
       \<Rightarrow> error + row list" where
  "finish_profile self native zero_point profile_dose_units normalize_by_monitor_units result =
     (case result of
        None \<Rightarrow> Inl TypeError
      | Some (Doses ds) \<Rightarrow> Inl IndexError
      | Some (Rows rows) \<Rightarrow>
          (case subtract_zero_point zero_point rows of
             Inl e \<Rightarrow> Inl e
           | Inr shifted \<Rightarrow>
               (case convert_dose_units native profile_dose_units shifted of
                  Inl e \<Rightarrow> Inl e
                | Inr converted \<Rightarrow>
                    normalize_profile self normalize_by_monitor_units converted)))"

text \<open>
  \<^verbatim>\<open>
    def get_profile(self, p0, p1, spacing=0.1, return_coords=True, profile_dose_units='Gy',
                    normalize_by_monitor_units=False, zero_point='default'):
        spacing = float(spacing)
        spacing *= 10
        (the zero point, see above)
        if isinstance(self._dose_reader, RTDoseReader):
            profile = self._dose_reader.get_profile(
                p0=p0 + zero_point, p1=p1 + zero_point,
                spacing=spacing, return_coords=return_coords)
            profile[:, :3] = profile[:, :3] - zero_point[None, :]
            (dose units, monitor units, see above)
            return profile
        else:
            return None
  \<close>
  The method returns its value, or the exception, together with the tool: the call of
  the dose reader may have configured its interpolator, also when a later statement
  raises.
\<close>

definition ProfileTool_get_profile ::
    "ProfileTool \<Rightarrow> vec \<Rightarrow> vec \<Rightarrow> real \<Rightarrow> bool \<Rightarrow> string \<Rightarrow> bool \<Rightarrow> zero_point_arg
       \<Rightarrow> (error + row list option) \<times> ProfileTool" where
  "ProfileTool_get_profile self p0 p1 spacing return_coords profile_dose_units
       normalize_by_monitor_units zero_point =
     (let spacing' = spacing * 10 in
      case resolve_zero_point self zero_point of
        Inl e \<Rightarrow> (Inl e, self)
      | Inr zero_point' \<Rightarrow>
          (case dose_reader self of
             None \<Rightarrow> (Inr None, self)
           | Some reader \<Rightarrow>
               (case add_zero_point p0 zero_point' of
                  Inl e \<Rightarrow> (Inl e, self)
                | Inr a \<Rightarrow>
                    (case add_zero_point p1 zero_point' of
                       Inl e \<Rightarrow> (Inl e, self)
                     | Inr b \<Rightarrow>
                         (case RTDoseReader_get_profile reader (Some a) (Some b) spacing'
                                 return_coords of
                            Inl e \<Rightarrow> (Inl e, self)
                          | Inr (result, reader') \<Rightarrow>
                              (let self' = self\<lparr>dose_reader := Some reader'\<rparr> in
                               case finish_profile self' (dose_units reader') zero_point'
                                      profile_dose_units normalize_by_monitor_units result of
                                 Inl e \<Rightarrow> (Inl e, self')
                               | Inr profile \<Rightarrow> (Inr (Some profile), self')))))))"

subsection \<open>profiles\_from\_file\<close>

text \<open>
  One data line of the points file, already split into its numbers
  \<^verbatim>\<open>z0, z1, x0, x1, y0, y1\<close> (centimetres):
  \<^verbatim>\<open>
                        z0, z1, x0, x1, y0, y1 = points
                        profile = self.get_profile(
                            p0=np.asarray([x0, y0, z0]) * 10,
                            p1=np.asarray([x1, y1, z1]) * 10,
                            spacing=spacing,
                            profile_dose_units=profile_dose_units,
                            normalize_by_monitor_units=normalize_by_monitor_units,
                            zero_point=zero_point)
                        profile[:, :3] = profile[:, :3] / 10
  \<close>
\<close>

definition to_cm :: "row \<Rightarrow> row" where
  "to_cm r = (case r of (x, y, z, d) \<Rightarrow> (x / 10, y / 10, z / 10, d))"

definition profile_of_line ::
    "ProfileTool \<Rightarrow> vec \<Rightarrow> real \<Rightarrow> string \<Rightarrow> bool \<Rightarrow> zero_point_arg
       \<Rightarrow> (error + row list) \<times> ProfileTool" where
  "profile_of_line self points spacing profile_dose_units normalize_by_monitor_units zero_point =
     (if length points = 6 then
        (let z0 = points ! 0; z1 = points ! 1; x0 = points ! 2; x1 = points ! 3;
             y0 = points ! 4; y1 = points ! 5
         in case ProfileTool_get_profile self
                   (map (\<lambda>v. v * 10) [x0, y0, z0]) (map (\<lambda>v. v * 10) [x1, y1, z1])
                   spacing True profile_dose_units normalize_by_monitor_units zero_point of
              (Inl e, self') \<Rightarrow> (Inl e, self')
            | (Inr None, self') \<Rightarrow> (Inl TypeError, self')
            | (Inr (Some profile), self') \<Rightarrow> (Inr (map to_cm profile), self'))
      else (Inl UnpackError, self))"

text \<open>
  The loop over the data lines appends one profile per line; an exception ends it.
\<close>

fun profiles_of_lines ::
    "ProfileTool \<Rightarrow> vec list \<Rightarrow> real \<Rightarrow> string \<Rightarrow> bool \<Rightarrow> zero_point_arg
       \<Rightarrow> (error + row list list) \<times> ProfileTool" where
  "profiles_of_lines self [] spacing units by_mu zero_point = (Inr [], self)"
| "profiles_of_lines self (points # rest) spacing units by_mu zero_point =
     (case profile_of_line self points spacing units by_mu zero_point of
        (Inl e, self') \<Rightarrow> (Inl e, self')
      | (Inr profile, self') \<Rightarrow>
          (case profiles_of_lines self' rest spacing units by_mu zero_point of
             (Inl e, self'') \<Rightarrow> (Inl e, self'')
           | (Inr profiles, self'') \<Rightarrow> (Inr (profile # profiles), self'')))"

text \<open>
  \<^verbatim>\<open>profiles_from_file\<close> up to the list \<^verbatim>\<open>profiles\<close> that it then writes: the lines
  with index below \<^verbatim>\<open>skip_rows\<close> are skipped. Reading and splitting the file and writing
  the result are outside the model. Without a dose reader nothing is computed.
\<close>

definition profiles_from_file ::
    "ProfileTool \<Rightarrow> vec list \<Rightarrow> int \<Rightarrow> real \<Rightarrow> string \<Rightarrow> bool \<Rightarrow> zero_point_arg
       \<Rightarrow> (error + row list list option) \<times> ProfileTool" where
  "profiles_from_file self lines skip_rows spacing profile_dose_units
       normalize_by_monitor_units zero_point =
     (case dose_reader self of
        None \<Rightarrow> (Inr None, self)
      | Some reader \<Rightarrow>
          (case profiles_of_lines self (drop (nat skip_rows) lines) spacing profile_dose_units
                  normalize_by_monitor_units zero_point of
             (Inl e, self') \<Rightarrow> (Inl e, self')
           | (Inr profiles, self') \<Rightarrow> (Inr (Some profiles), self')))"

section \<open>Reading a profile\<close>

text \<open>The coordinate columns \<^verbatim>\<open>profile[:, :3]\<close> and the dose column \<^verbatim>\<open>profile[:, 3]\<close>.\<close>

definition coords :: "row \<Rightarrow> real \<times> real \<times> real" where
  "coords r = (case r of (x, y, z, d) \<Rightarrow> (x, y, z))"

definition dose :: "row \<Rightarrow> real" where
  "dose r = (case r of (x, y, z, d) \<Rightarrow> d)"

text \<open>
  The points that three calls of \<^verbatim>\<open>np.linspace\<close> with the same count give in exact
  arithmetic: for \<open>n \<ge> 2\<close> the \<open>k\<close>-th point lies at the fraction \<open>k / (n - 1)\<close> of the way
  from \<open>p0\<close> to \<open>p1\<close>, so the first is \<open>p0\<close> and the last is \<open>p1\<close>; for \<open>n = 1\<close> the only
  point is \<open>p0\<close>, and \<open>p1\<close> is not among the points; for \<open>n = 0\<close> there is none.
\<close>

definition evenly_spaced :: "vec \<Rightarrow> vec \<Rightarrow> nat \<Rightarrow> (real \<times> real \<times> real) list" where
  "evenly_spaced p0 p1 n =
     map (\<lambda>k. let t = (if n \<le> 1 then 0 else real k / real (n - 1))
              in (p0 ! 0 + (p1 ! 0 - p0 ! 0) * t,
                  p0 ! 1 + (p1 ! 1 - p0 ! 1) * t,
                  p0 ! 2 + (p1 ! 2 - p0 ! 2) * t))
       [0..<n]"

text \<open>
  The zero point as it is broadcast against the three coordinate columns: the component
  \<open>i\<close> of a 3-vector, the single value of a 1-vector.
\<close>

definition offset :: "vec \<Rightarrow> nat \<Rightarrow> real" where
  "offset z i = (if length z = 3 then z ! i else hd z)"

section \<open>A dose grid and a plan to compute with\<close>

text \<open>
  An axial grid of 12 columns, 4 rows and 3 frames with unit spacing at the origin; the
  stored value of a voxel is its column plus ten times its row plus a hundred times its
  frame, and the grid scaling is one tenth.
\<close>

definition example_dataset :: rtdose_dataset where
  "example_dataset =
     \<lparr>ImagePositionPatient = [0, 0, 0],
      ImageOrientationPatient = [1, 0, 0, 0, 1, 0],
      PixelSpacing = [1, 1],
      SliceThickness = 1,
      DoseGridScaling = 1 / 10,
      DoseUnits = ''GY'',
      ds_pixel_array =
        Array3D \<lparr>shape = (3, 4, 12), entry = (\<lambda>f r c. int (100 * f + 10 * r + c))\<rparr>\<rparr>"

definition example_matrix :: matrix where
  "example_matrix = [[1, 0, 0, 0], [0, 1, 0, 0], [0, 0, 1, 0], [0, 0, 0, 1]]"

definition example_reader :: RTDoseReader where
  "example_reader =
     \<lparr>ipp = [0, 0, 0], iop = [1, 0, 0, 0, 1, 0], dose_grid_scaling = 1 / 10,
      slice_thickness = 1, pixel_spacing = [1, 1],
      pixel_array =
        \<lparr>shape = (12, 4, 3), entry = (\<lambda>i j k. int (100 * k + 10 * j + i))\<rparr>,
      pixel_to_coords_matrix = example_matrix,
      interpolation_method = Linear, interpolator = None, dose_units = ''GY''\<rparr>"

text \<open>The same grid with both orientation vectors along the x axis.\<close>

definition degenerate_dataset :: rtdose_dataset where
  "degenerate_dataset = example_dataset\<lparr>ImageOrientationPatient := [1, 0, 0, 1, 0, 0]\<rparr>"

definition degenerate_matrix :: matrix where
  "degenerate_matrix = [[1, 1, 0, 0], [0, 0, 0, 0], [0, 0, 0, 0], [0, 0, 0, 1]]"

text \<open>
  The beam of the specification's examples: isocenter at the origin, SSD 100, SAD 90,
  200 monitor units, at a gantry angle \<open>g\<close>; and the same beam without its SAD.
\<close>

definition example_beam :: "real \<Rightarrow> string \<Rightarrow> pval option" where
  "example_beam g =
     [''Isocenter'' \<mapsto> Seq [0, 0, 0], ''Monitor Units'' \<mapsto> Num 200, ''SSD'' \<mapsto> Num 100,
      ''SAD'' \<mapsto> Num 90, ''Gantry Angle'' \<mapsto> Num g]"

definition beam_without_sad :: "string \<Rightarrow> pval option" where
  "beam_without_sad =
     [''Isocenter'' \<mapsto> Seq [0, 0, 0], ''Monitor Units'' \<mapsto> Num 200, ''SSD'' \<mapsto> Num 100,
      ''Gantry Angle'' \<mapsto> Num 0]"

definition beam_without_monitor_units :: "string \<Rightarrow> pval option" where
  "beam_without_monitor_units =
     [''Isocenter'' \<mapsto> Seq [0, 0, 0], ''SSD'' \<mapsto> Num 100, ''SAD'' \<mapsto> Num 90,
      ''Gantry Angle'' \<mapsto> Num 0]"

text \<open>The RTPLAN dataset that holds exactly the elements of a beam.\<close>

definition dataset_of :: "(string \<Rightarrow> pval option) \<Rightarrow> plan_dataset" where
  "dataset_of beam key = (case beam key of None \<Rightarrow> Inl (KeyError key) | Some v \<Rightarrow> Inr v)"



text \<open>
  A tool as \<^verbatim>\<open>_configure_readers\<close> leaves it: the interpolator of the dose reader is
  configured, the plan reader holds its dataset and the values read. The native dose
  unit and the beam are parameters.
\<close>

definition example_tool_with :: "string \<Rightarrow> (string \<Rightarrow> pval option) \<Rightarrow> ProfileTool" where
  "example_tool_with units beam =
     \<lparr>dose_reader = Some (configure_interpolator (example_reader\<lparr>dose_units := units\<rparr>)),
      plan_reader = Some \<lparr>plan_ds = Some (dataset_of beam), beam_parameters = beam\<rparr>\<rparr>"

definition example_tool :: "real \<Rightarrow> ProfileTool" where
  "example_tool g = example_tool_with ''GY'' (example_beam g)"

section \<open>Lists of three\<close>

lemma length3: "length p = 3 \<Longrightarrow> \<exists>x y z. p = [x, y, z]"
  by (auto simp: numeral_3_eq_3 length_Suc_conv)

lemma length1: "length p = Suc 0 \<Longrightarrow> \<exists>x. p = [x]"
  by (auto simp: length_Suc_conv)

section \<open>np.linspace\<close>

lemma np_linspace_length:
  "np_linspace a b n = Inr ys \<Longrightarrow> 0 \<le> n \<and> length ys = nat n"
  by (auto simp: np_linspace_def Let_def split: if_splits)

lemma np_linspace_succeeds:
  "0 \<le> n \<Longrightarrow> \<exists>ys. np_linspace a b n = Inr ys"
  by (simp add: np_linspace_def Let_def)

lemma np_linspace_nth:
  assumes "np_linspace a b n = Inr ys" and "k < nat n"
  shows "ys ! k = a + (b - a) * (if nat n \<le> 1 then 0 else real k / real (nat n - 1))"
proof (cases "1 < nat n")
  case True
  then have ys: "ys = (map (\<lambda>v. v + a) (map (\<lambda>k. k * ((b - a) / real (nat n - 1)))
        (map real [0..<nat n])))[nat n - 1 := b]"
    using assms(1) by (simp add: np_linspace_def Let_def split: if_splits)
  have nn: "\<not> nat n \<le> 1" "real (nat n - 1) \<noteq> 0" "nat n - 1 < nat n"
    using True by auto
  show ?thesis
  proof (cases "k = nat n - 1")
    case True
    have "ys ! k = b"
      unfolding ys True by (rule nth_list_update_eq) (use nn(3) in simp)
    moreover have "real k / real (nat n - 1) = 1"
      unfolding True using nn(2) by (rule divide_self)
    ultimately show ?thesis using nn(1) by simp
  next
    case False
    have "ys ! k = a + (b - a) * (real k / real (nat n - 1))"
      using False assms(2) by (simp add: ys)
    then show ?thesis using nn(1) by simp
  qed
next
  case False
  with assms have "nat n = 1" by simp
  with assms show ?thesis by (auto simp: np_linspace_def Let_def split: if_splits)
qed

lemma np_linspace_shift:
  assumes "np_linspace (a + c) (b + c) n = Inr ys'"
  shows "np_linspace a b n = Inr (map (\<lambda>v. v - c) ys')"
proof -
  from assms have n: "0 \<le> n" "length ys' = nat n" by (auto dest: np_linspace_length)
  from np_linspace_succeeds [OF n(1)] obtain ys where ys: "np_linspace a b n = Inr ys" by blast
  then have len: "length ys = nat n" by (auto dest: np_linspace_length)
  have "ys = map (\<lambda>v. v - c) ys'"
  proof (rule nth_equalityI)
    show "length ys = length (map (\<lambda>v. v - c) ys')" using len n by simp
  next
    fix k assume "k < length ys"
    then have k: "k < nat n" using len by simp
    show "ys ! k = map (\<lambda>v. v - c) ys' ! k"
      using np_linspace_nth [OF ys k] np_linspace_nth [OF assms k] k n by simp
  qed
  with ys show ?thesis by simp
qed

lemma linspace_xyz_evenly_spaced:
  assumes "linspace_xyz p0 p1 n = Inr (xs, ys, zs)"
  shows "zip xs (zip ys zs) = evenly_spaced p0 p1 (nat n)"
proof -
  from assms have x: "np_linspace (p0 ! 0) (p1 ! 0) n = Inr xs"
    and y: "np_linspace (p0 ! 1) (p1 ! 1) n = Inr ys"
    and z: "np_linspace (p0 ! 2) (p1 ! 2) n = Inr zs"
    by (auto simp: linspace_xyz_def split: sum.splits)
  have len: "length xs = nat n" "length ys = nat n" "length zs = nat n"
    using x y z by (auto dest: np_linspace_length)
  show ?thesis
  proof (rule nth_equalityI)
    show "length (zip xs (zip ys zs)) = length (evenly_spaced p0 p1 (nat n))"
      by (simp add: len evenly_spaced_def)
  next
    fix k assume "k < length (zip xs (zip ys zs))"
    then have k: "k < nat n" by (simp add: len)
    show "zip xs (zip ys zs) ! k = evenly_spaced p0 p1 (nat n) ! k"
      using k len np_linspace_nth [OF x k] np_linspace_nth [OF y k] np_linspace_nth [OF z k]
      by (simp add: evenly_spaced_def Let_def)
  qed
qed

section \<open>The zero point of the beam\<close>


section \<open>Rounding to float64\<close>

lemma pow2_powr: "pow2 e = 2 powr (of_int e)"
  by (simp add: pow2_def powr_int)

lemma pow2_pos: "0 < pow2 e"
  by (simp add: pow2_def)

lemma float64_exponent_eq:
  assumes "pow2 e \<le> \<bar>x\<bar>" and "\<bar>x\<bar> < pow2 (e + 1)" and "- 1022 \<le> e"
  shows "float64_exponent x = e"
proof -
  have "0 < \<bar>x\<bar>"
    using assms(1) pow2_pos [of e] by linarith
  then have "\<lfloor>log 2 \<bar>x\<bar>\<rfloor> = e"
    using assms(1, 2) floor_log_eq_powr_iff [of "\<bar>x\<bar>" 2 e] by (simp add: pow2_powr)
  with assms(3) show ?thesis
    by (simp add: float64_exponent_def)
qed

lemma round_half_even_near:
  assumes "\<bar>q - of_int m\<bar> < 1 / 2"
  shows "round_half_even q = m"
proof (cases "of_int m \<le> q")
  case True
  with assms have "\<lfloor>q\<rfloor> = m" by (intro floor_unique) linarith+
  with assms True show ?thesis by (simp add: round_half_even_def)
next
  case False
  with assms have f: "\<lfloor>q\<rfloor> = m - 1" by (intro floor_unique) (simp, linarith)+
  from False assms have "1 / 2 < q - of_int (m - 1)" by simp
  with f show ?thesis by (simp add: round_half_even_def)
qed

lemma round64_value:
  assumes "pow2 e \<le> \<bar>x\<bar>" and "\<bar>x\<bar> < pow2 (e + 1)" and "- 1022 \<le> e"
    and "\<bar>x / pow2 (e - 52) - of_int m\<bar> < 1 / 2"
  shows "round64 x = of_int m * pow2 (e - 52)"
proof -
  have "x \<noteq> 0"
    using assms(1) pow2_pos [of e] by auto
  then show ?thesis
    by (simp add: round64_def float64_exponent_eq [OF assms(1-3)]
        round_half_even_near [OF assms(4)])
qed

section \<open>An enclosure of pi\<close>

lemma arctan_partial_sums:
  fixes x :: real
  assumes "0 \<le> x" and "x \<le> 1"
  shows "(\<Sum>k<2 * n. (- 1) ^ k * (1 / real (k * 2 + 1) * x ^ (k * 2 + 1))) \<le> arctan x"
    and "arctan x \<le> (\<Sum>k<2 * n + 1. (- 1) ^ k * (1 / real (k * 2 + 1) * x ^ (k * 2 + 1)))"
proof -
  let ?a = "\<lambda>k. 1 / real (k * 2 + 1) * x ^ (k * 2 + 1)"
  have ax: "\<bar>x\<bar> \<le> 1" using assms by simp
  have zero: "?a \<longlonglongrightarrow> 0"
    using ax by (rule zeroseq_arctan_series)
  have pos: "0 \<le> ?a k" for k
    using assms by simp
  have mono: "?a (Suc k) \<le> ?a k" for k
  proof -
    have "x ^ (Suc k * 2 + 1) \<le> x ^ (k * 2 + 1)"
      using assms by (intro power_decreasing) simp_all
    moreover have "1 / real (Suc k * 2 + 1) \<le> 1 / real (k * 2 + 1)"
      by (simp add: field_simps)
    ultimately show ?thesis
      using assms by (intro mult_mono) simp_all
  qed
  have series: "arctan x = (\<Sum>k. (- 1) ^ k * ?a k)"
    using ax by (rule arctan_series)
  show "(\<Sum>k<2 * n. (- 1) ^ k * ?a k) \<le> arctan x"
    unfolding series by (rule summable_Leibniz'(2) [OF zero pos mono])
  show "arctan x \<le> (\<Sum>k<2 * n + 1. (- 1) ^ k * ?a k)"
    unfolding series by (rule summable_Leibniz'(4) [OF zero pos mono])
qed

lemma pi_enclosure:
  "3141592653589793238462643383279502 / 10 ^ 33 < pi"
  "pi < 3141592653589793238462643383279503 / 10 ^ 33"
proof -
  have m: "pi = 16 * arctan (1 / 5) - 4 * arctan (1 / 239)"
    using machin by simp
  have "3141592653589793238462643383279502 / 10 ^ 33 <
        16 * (\<Sum>k<2 * 12. (- 1) ^ k * (1 / real (k * 2 + 1) * (1 / 5) ^ (k * 2 + 1)))
        - 4 * (\<Sum>k<2 * 4 + 1. (- 1) ^ k * (1 / real (k * 2 + 1) * (1 / 239) ^ (k * 2 + 1)))"
    by (simp add: lessThan_nat_numeral power_divide)
  also have "\<dots> \<le> pi"
    unfolding m
    using arctan_partial_sums(1) [of "1 / 5" 12] arctan_partial_sums(2) [of "1 / 239" 4]
    by simp
  finally show "3141592653589793238462643383279502 / 10 ^ 33 < pi" .
  have "pi \<le>
        16 * (\<Sum>k<2 * 12 + 1. (- 1) ^ k * (1 / real (k * 2 + 1) * (1 / 5) ^ (k * 2 + 1)))
        - 4 * (\<Sum>k<2 * 4. (- 1) ^ k * (1 / real (k * 2 + 1) * (1 / 239) ^ (k * 2 + 1)))"
    unfolding m
    using arctan_partial_sums(2) [of "1 / 5" 12] arctan_partial_sums(1) [of "1 / 239" 4]
    by simp
  also have "\<dots> < 3141592653589793238462643383279503 / 10 ^ 33"
    by (simp add: lessThan_nat_numeral power_divide)
  finally show "pi < 3141592653589793238462643383279503 / 10 ^ 33" .
qed


section \<open>Sine and cosine at the double nearest to pi\<close>

lemma sin_near_zero:
  fixes t :: real
  assumes "0 \<le> t"
  shows "t - t ^ 3 / 6 \<le> sin t" and "sin t \<le> t"
proof -
  have "(\<Sum>m<3. sin_coeff m * t ^ m) = t"
    by (simp add: lessThan_nat_numeral sin_coeff_def)
  with Maclaurin_sin_bound [of t 3] have "\<bar>sin t - t\<bar> \<le> inverse (fact 3) * \<bar>t\<bar> ^ 3"
    by simp
  moreover have "inverse (fact 3) * \<bar>t\<bar> ^ 3 = t ^ 3 / 6"
    using assms by (simp add: fact_numeral)
  ultimately show "t - t ^ 3 / 6 \<le> sin t" by linarith
  show "sin t \<le> t" using assms by (rule sin_x_le_x)
qed

lemma pi_minus_NPY_PI:
  "3141592653589793238462643383279502 / 10 ^ 33 - 884279719003555 / 2 ^ 48 < pi - NPY_PI"
  "pi - NPY_PI < 3141592653589793238462643383279503 / 10 ^ 33 - 884279719003555 / 2 ^ 48"
  "0 < pi - NPY_PI" "pi - NPY_PI < 2 / 10 ^ 16"
proof -
  show a: "3141592653589793238462643383279502 / 10 ^ 33 - 884279719003555 / 2 ^ 48 < pi - NPY_PI"
    and b: "pi - NPY_PI < 3141592653589793238462643383279503 / 10 ^ 33 - 884279719003555 / 2 ^ 48"
    using pi_enclosure by (simp_all add: NPY_PI_def)
  have "(0::real) < 3141592653589793238462643383279502 / 10 ^ 33 - 884279719003555 / 2 ^ 48"
    by simp
  with a show "0 < pi - NPY_PI" by linarith
  have "3141592653589793238462643383279503 / 10 ^ 33 - 884279719003555 / 2 ^ 48 < (2 / 10 ^ 16 :: real)"
    by simp
  with b show "pi - NPY_PI < 2 / 10 ^ 16" by linarith
qed

lemma sin_NPY_PI:
  "(4967757600021511 - 1 / 2) / 2 ^ 105 < sin NPY_PI"
  "sin NPY_PI < (4967757600021511 + 1 / 2) / 2 ^ 105"
proof -
  define t where "t = pi - NPY_PI"
  note g = pi_minus_NPY_PI [folded t_def]
  have s: "sin NPY_PI = sin t"
    using sin_pi_minus [of t] by (simp add: t_def)
  have "t ^ 3 \<le> (2 / 10 ^ 16) ^ 3"
    using g(3, 4) by (intro power_mono) simp_all
  then have "t - (2 / 10 ^ 16) ^ 3 / 6 \<le> t - t ^ 3 / 6"
    by simp
  also have "\<dots> \<le> sin t"
    using g(3) by (intro sin_near_zero(1)) simp
  finally have lower: "t - (2 / 10 ^ 16) ^ 3 / 6 \<le> sin t" .
  have "((4967757600021511 - 1 / 2) / 2 ^ 105 :: real) <
      3141592653589793238462643383279502 / 10 ^ 33 - 884279719003555 / 2 ^ 48
        - (2 / 10 ^ 16) ^ 3 / 6"
    by (simp add: power_divide)
  with g(1) lower show "(4967757600021511 - 1 / 2) / 2 ^ 105 < sin NPY_PI"
    unfolding s by linarith
  have "sin t \<le> t"
    using g(3) by (intro sin_near_zero(2)) simp
  moreover have "3141592653589793238462643383279503 / 10 ^ 33 - 884279719003555 / 2 ^ 48
      < ((4967757600021511 + 1 / 2) / 2 ^ 105 :: real)"
    by simp
  ultimately show "sin NPY_PI < (4967757600021511 + 1 / 2) / 2 ^ 105"
    unfolding s using g(2) by linarith
qed

lemma cos_NPY_PI:
  "- 1 < cos NPY_PI" "cos NPY_PI \<le> - 1 + 4 / 10 ^ 32"
proof -
  define t where "t = pi - NPY_PI"
  note g = pi_minus_NPY_PI [folded t_def]
  have c: "cos NPY_PI = - cos t"
    using cos_pi_minus [of t] by (simp add: t_def)
  have tp: "t < pi / 2"
    using g(4) pi_ge_two by simp
  have st: "0 < sin t"
    using g(3) tp by (intro sin_gt_zero) (use pi_ge_two in simp_all)
  have st': "sin t \<le> t"
    using g(3) by (intro sin_near_zero(2)) simp
  have ct: "0 < cos t"
    using g(3) tp by (rule cos_gt_zero)
  have sq: "(cos t)\<^sup>2 = 1 - (sin t)\<^sup>2"
    by (rule cos_squared_eq)
  have "(cos t)\<^sup>2 < 1"
    using st by (simp add: sq)
  then have "cos t < 1"
    using ct by (simp add: abs_square_less_1)
  then show "- 1 < cos NPY_PI" by (simp add: c)
  have "(sin t)\<^sup>2 \<le> t\<^sup>2"
    using st st' by (intro power_mono) simp_all
  also have "\<dots> \<le> (2 / 10 ^ 16)\<^sup>2"
    using g(3, 4) by (intro power_mono) simp_all
  finally have "1 - (2 / 10 ^ 16)\<^sup>2 \<le> (cos t)\<^sup>2"
    by (simp add: sq)
  also have "(cos t)\<^sup>2 \<le> cos t"
    using ct cos_le_one [of t] by (simp add: power2_eq_square mult_left_le)
  finally have "1 - (2 / 10 ^ 16)\<^sup>2 \<le> cos t" .
  then show "cos NPY_PI \<le> - 1 + 4 / 10 ^ 32"
    by (simp add: c power_divide)
qed

section \<open>The float64 values\<close>

lemma round64_0: "round64 0 = 0"
  by (simp add: round64_def)

lemma round64_1: "round64 1 = 1"
  using round64_value [of 0 1 "2 ^ 52"] by (simp add: pow2_def)

lemma round64_10: "round64 10 = 10" "round64 (- 10) = - 10"
  using round64_value [of 3 10 "10 * 2 ^ 49"] round64_value [of 3 "- 10" "- (10 * 2 ^ 49)"]
  by (simp_all add: pow2_def)

lemma DEG2RAD_value: "DEG2RAD = 5030569068109113 / 2 ^ 58"
  unfolding DEG2RAD_def
  using round64_value [of "- 6" "NPY_PI / 180" 5030569068109113]
  by (simp add: pow2_def NPY_PI_def)

lemma np_radians_0: "np_radians 0 = 0"
  by (simp add: np_radians_def round64_0)

lemma np_radians_180: "np_radians 180 = NPY_PI"
  unfolding np_radians_def DEG2RAD_value
  using round64_value [of 1 "180 * (5030569068109113 / 2 ^ 58)" 7074237752028440]
  by (simp add: pow2_def NPY_PI_def)

lemma np_sin_0: "np_sin 0 = 0"
  by (simp add: np_sin_def round64_0)

lemma np_cos_0: "np_cos 0 = 1"
  by (simp add: np_cos_def round64_1)

lemma np_sin_NPY_PI: "np_sin NPY_PI = 4967757600021511 / 2 ^ 105"
proof -
  note s = sin_NPY_PI
  have "pow2 (- 53) \<le> \<bar>sin NPY_PI\<bar>" and "\<bar>sin NPY_PI\<bar> < pow2 (- 53 + 1)"
    using s by (simp_all add: pow2_def field_simps)
  moreover have "\<bar>sin NPY_PI / pow2 (- 53 - 52) - of_int 4967757600021511\<bar> < 1 / 2"
  proof -
    define q where "q = sin NPY_PI * 2 ^ 105"
    have "q < 4967757600021511 + 1 / 2" and "4967757600021511 - 1 / 2 < q"
      using s unfolding q_def by (simp_all add: field_simps)
    then have "\<bar>q - 4967757600021511\<bar> < 1 / 2"
      by linarith
    moreover have "sin NPY_PI / pow2 (- 53 - 52) = q"
      by (simp add: pow2_def q_def)
    ultimately show ?thesis by simp
  qed
  ultimately have "round64 (sin NPY_PI) = of_int 4967757600021511 * pow2 (- 53 - 52)"
    by (intro round64_value) simp_all
  then show ?thesis
    by (simp add: np_sin_def pow2_def)
qed

lemma np_cos_NPY_PI: "np_cos NPY_PI = - 1"
  unfolding np_cos_def
  using round64_value [of "- 1" "cos NPY_PI" "- (2 ^ 53)"] cos_NPY_PI
  by (simp add: pow2_def)

lemma example_products:
  "round64 (10 * (4967757600021511 / 2 ^ 105)) = 6209697000026889 / 2 ^ 102"
  "round64 (0 - 6209697000026889 / 2 ^ 102) = - (6209697000026889 / 2 ^ 102)"
  using round64_value [of "- 50" "10 * (4967757600021511 / 2 ^ 105)" 6209697000026889]
        round64_value [of "- 50" "0 - 6209697000026889 / 2 ^ 102" "- 6209697000026889"]
  by (simp_all add: pow2_def)


section \<open>The zero point in float64\<close>

text \<open>
  The arithmetic of the specification's two examples, isocenter at the origin, SSD 100
  and SAD 90. At gantry angle 0 every intermediate result is exact. At gantry angle 180
  the angle in radians is the double nearest to \<open>\<pi>\<close>, which is below \<open>\<pi>\<close>: its sine is
  the double \<open>4967757600021511 / 2 ^ 105\<close>, about \<open>1.2246e-16\<close>, and its cosine rounds to
  \<open>-1\<close>.
\<close>

lemma zero_point_arithmetic:
  "float64_sub 0 (float64_mul (float64_sub 100 90) (np_sin (np_radians 0))) = 0"
  "float64_add 0 (float64_mul (float64_sub 100 90) (np_cos (np_radians 0))) = 10"
  "float64_sub 0 (float64_mul (float64_sub 100 90) (np_sin (np_radians 180)))
     = - (6209697000026889 / 2 ^ 102)"
  "float64_add 0 (float64_mul (float64_sub 100 90) (np_cos (np_radians 180))) = - 10"
proof -
  have d: "float64_sub 100 90 = 10"
    by (simp add: float64_sub_def round64_10)
  have p: "float64_mul 10 (np_sin NPY_PI) = 6209697000026889 / 2 ^ 102"
    unfolding float64_mul_def np_sin_NPY_PI by (rule example_products(1))
  have x: "float64_sub 0 (6209697000026889 / 2 ^ 102) = - (6209697000026889 / 2 ^ 102)"
    unfolding float64_sub_def by (rule example_products(2))
  have q: "float64_mul 10 (np_cos NPY_PI) = - 10"
    by (simp add: float64_mul_def np_cos_NPY_PI round64_10)
  have y: "float64_add 0 (- 10) = - 10"
    by (simp add: float64_add_def round64_10)
  show "float64_sub 0 (float64_mul (float64_sub 100 90) (np_sin (np_radians 0))) = 0"
    by (simp add: d np_radians_0 np_sin_0 float64_mul_def float64_sub_def round64_0)
  show "float64_add 0 (float64_mul (float64_sub 100 90) (np_cos (np_radians 0))) = 10"
    by (simp add: d np_radians_0 np_cos_0 float64_mul_def float64_add_def round64_10)
  show "float64_sub 0 (float64_mul (float64_sub 100 90) (np_sin (np_radians 180)))
     = - (6209697000026889 / 2 ^ 102)"
    unfolding np_radians_180 d p x by (rule refl)
  show "float64_add 0 (float64_mul (float64_sub 100 90) (np_cos (np_radians 180))) = - 10"
    unfolding np_radians_180 d q y by (rule refl)
qed

text \<open>
  C2, as the code has it. With an isocenter \<open>(ix, iy, iz)\<close>, a gantry angle \<open>g\<close> in
  degrees, an SSD and an SAD among the beam parameters, the zero point in the mode
  INTERCEPT\_CAX\_SURFACE is the float64 value of
  \<open>(ix - (SSD - SAD) sin(radians g), iy + (SSD - SAD) cos(radians g), iz)\<close>: the angle in
  radians, its sine and cosine, the difference of SSD and SAD, the two products and the
  difference and sum with the isocenter are each rounded to the nearest double. For the
  isocenter at the origin, SSD 100 and SAD 90 this is exactly \<open>(0, 10, 0)\<close> at gantry
  angle 0, and \<open>(-6209697000026889 / 2 ^ 102, -10, 0)\<close>, about \<open>(-1.2246e-15, -10, 0)\<close>,
  at gantry angle 180.
\<close>

theorem zero_point_intercept_cax_surface:
  assumes "plan_reader self = Some plan"
    and "beam_parameters plan ''Isocenter'' = Some (Seq [ix, iy, iz])"
    and "beam_parameters plan ''Gantry Angle'' = Some (Num g)"
    and "beam_parameters plan ''SSD'' = Some (Num ssd)"
    and "beam_parameters plan ''SAD'' = Some (Num sad)"
  shows "get_zero_point self ''INTERCEPT_CAX_SURFACE'' =
     Inr (Some [float64_sub ix (float64_mul (float64_sub ssd sad) (np_sin (np_radians g))),
                float64_add iy (float64_mul (float64_sub ssd sad) (np_cos (np_radians g))),
                iz]) \<and>
   (ix = 0 \<and> iy = 0 \<and> iz = 0 \<and> ssd = 100 \<and> sad = 90 \<and> g = 0 \<longrightarrow>
      get_zero_point self ''INTERCEPT_CAX_SURFACE'' = Inr (Some [0, 10, 0])) \<and>
   (ix = 0 \<and> iy = 0 \<and> iz = 0 \<and> ssd = 100 \<and> sad = 90 \<and> g = 180 \<longrightarrow>
      get_zero_point self ''INTERCEPT_CAX_SURFACE''
        = Inr (Some [- (6209697000026889 / 2 ^ 102), - 10, 0]))"
proof -
  have "get_zero_point self ''INTERCEPT_CAX_SURFACE'' =
     Inr (Some [float64_sub ix (float64_mul (float64_sub ssd sad) (np_sin (np_radians g))),
                float64_add iy (float64_mul (float64_sub ssd sad) (np_cos (np_radians g))),
                iz])"
    using assms
    by (simp add: get_zero_point_def getitem_def float_each_def py_float_def)
  then show ?thesis
    by (auto simp: zero_point_arithmetic)
qed

text \<open>The two examples on the example tool.\<close>

theorem zero_point_intercept_cax_surface_witness:
  "get_zero_point (example_tool 0) ''INTERCEPT_CAX_SURFACE'' = Inr (Some [0, 10, 0]) \<and>
   get_zero_point (example_tool 180) ''INTERCEPT_CAX_SURFACE''
     = Inr (Some [- (6209697000026889 / 2 ^ 102), - 10, 0])"
  using zero_point_intercept_cax_surface
          [of "example_tool 0"
              "\<lparr>plan_ds = Some (dataset_of (example_beam 0)), beam_parameters = example_beam 0\<rparr>"
              0 0 0 0 100 90]
        zero_point_intercept_cax_surface
          [of "example_tool 180"
              "\<lparr>plan_ds = Some (dataset_of (example_beam 180)), beam_parameters = example_beam 180\<rparr>"
              0 0 0 180 100 90]
  by (auto simp: example_tool_def example_tool_with_def example_beam_def)

text \<open>
  C2, as stated, fails at the specification's second example: at gantry angle 180 the
  zero point is not \<open>(0, -10, 0)\<close>. Its first coordinate is ten times the sine of the
  double nearest to \<open>\<pi>\<close>, negated, and that sine is not zero.
\<close>

theorem zero_point_at_gantry_180:
  "get_zero_point (example_tool 180) ''INTERCEPT_CAX_SURFACE''
     = Inr (Some [- (6209697000026889 / 2 ^ 102), - 10, 0]) \<and>
   get_zero_point (example_tool 180) ''INTERCEPT_CAX_SURFACE'' \<noteq> Inr (Some [0, - 10, 0])"
proof -
  have "get_zero_point (example_tool 180) ''INTERCEPT_CAX_SURFACE'' =
      Inr (Some [float64_sub 0 (float64_mul (float64_sub 100 90) (np_sin (np_radians 180))),
                 float64_add 0 (float64_mul (float64_sub 100 90) (np_cos (np_radians 180))),
                 0])"
    by (simp add: get_zero_point_def example_tool_def example_tool_with_def example_beam_def
        getitem_def float_each_def py_float_def)
  then show ?thesis
    unfolding zero_point_arithmetic by simp
qed

section \<open>The beam parameters a plan reader can hold\<close>

text \<open>
  The parameters are read in the order Isocenter, Monitor Units, SSD, SAD, Gantry Angle
  and the reading stops at the first one that is missing. So the gantry angle is read
  only after the isocenter, the SSD and the SAD, and values once read are never removed.
\<close>

lemma read_keys_gantry_last:
  assumes "read_keys contents beam_parameter_keys params = (e, params')"
    and "params ''Gantry Angle'' \<noteq> None \<longrightarrow>
           params ''Isocenter'' \<noteq> None \<and> params ''SSD'' \<noteq> None \<and> params ''SAD'' \<noteq> None"
  shows "params' ''Gantry Angle'' \<noteq> None \<longrightarrow>
           params' ''Isocenter'' \<noteq> None \<and> params' ''SSD'' \<noteq> None \<and> params' ''SAD'' \<noteq> None"
  using assms by (auto simp: beam_parameter_keys_def split: sum.splits)

lemma read_beam_parameters_gantry_last:
  assumes "read_beam_parameters_from_dataset self = (e, self')"
    and "beam_parameters self ''Gantry Angle'' \<noteq> None \<longrightarrow>
           beam_parameters self ''Isocenter'' \<noteq> None \<and> beam_parameters self ''SSD'' \<noteq> None \<and>
           beam_parameters self ''SAD'' \<noteq> None"
  shows "beam_parameters self' ''Gantry Angle'' \<noteq> None \<longrightarrow>
           beam_parameters self' ''Isocenter'' \<noteq> None \<and> beam_parameters self' ''SSD'' \<noteq> None \<and>
           beam_parameters self' ''SAD'' \<noteq> None"
proof (cases "plan_ds self")
  case None
  with assms show ?thesis by (simp add: read_beam_parameters_from_dataset_def)
next
  case (Some contents)
  obtain e' params where r: "read_keys contents beam_parameter_keys (beam_parameters self) = (e', params)"
    by (cases "read_keys contents beam_parameter_keys (beam_parameters self)")
  with assms(1) Some have "beam_parameters self' = params"
    by (auto simp: read_beam_parameters_from_dataset_def)
  with read_keys_gantry_last [OF r assms(2)] show ?thesis by simp
qed

lemma load_dataset_gantry_last:
  assumes "load_dataset stored self = (e, self')"
    and "beam_parameters self ''Gantry Angle'' \<noteq> None \<longrightarrow>
           beam_parameters self ''Isocenter'' \<noteq> None \<and> beam_parameters self ''SSD'' \<noteq> None \<and>
           beam_parameters self ''SAD'' \<noteq> None"
  shows "beam_parameters self' ''Gantry Angle'' \<noteq> None \<longrightarrow>
           beam_parameters self' ''Isocenter'' \<noteq> None \<and> beam_parameters self' ''SSD'' \<noteq> None \<and>
           beam_parameters self' ''SAD'' \<noteq> None"
proof (cases "plan_ds self")
  case (Some contents)
  with assms(1) have "read_beam_parameters_from_dataset self = (e, self')"
    by (simp add: load_dataset_def)
  then show ?thesis using assms(2) by (rule read_beam_parameters_gantry_last)
next
  case None
  show ?thesis
  proof (cases stored)
    case n: None
    with None assms show ?thesis by (simp add: load_dataset_def)
  next
    case (Some contents)
    with None assms(1)
    have "read_beam_parameters_from_dataset (self\<lparr>plan_ds := Some contents\<rparr>) = (e, self')"
      by (simp add: load_dataset_def)
    then show ?thesis
      by (rule read_beam_parameters_gantry_last) (use assms(2) in simp)
  qed
qed

lemma reachable_gantry_last:
  "reachable plan \<Longrightarrow>
     beam_parameters plan ''Gantry Angle'' \<noteq> None \<longrightarrow>
       beam_parameters plan ''Isocenter'' \<noteq> None \<and> beam_parameters plan ''SSD'' \<noteq> None \<and>
       beam_parameters plan ''SAD'' \<noteq> None"
proof (induction rule: reachable.induct)
  case (constructed stored dataset self)
  obtain e r where l: "load_dataset stored \<lparr>plan_ds = dataset, beam_parameters = Map.empty\<rparr> = (e, r)"
    by (cases "load_dataset stored \<lparr>plan_ds = dataset, beam_parameters = Map.empty\<rparr>")
  with constructed have "r = self"
    by (simp add: RTPlanReader_init_def split: option.splits)
  with load_dataset_gantry_last [OF l] show ?case by simp
next
  case (loaded self stored e self')
  from loaded(2) have "load_dataset stored self = (e, self')" by (simp add: load_file_def)
  then show ?case using loaded(3) by (rule load_dataset_gantry_last)
next
  case (read_again self e self')
  from read_again(2) show ?case using read_again(3) by (rule read_beam_parameters_gantry_last)
qed

text \<open>
  A reader built on a dataset has all five parameters, or the constructor raised: this
  is the only way \<^verbatim>\<open>_configure_readers\<close> gives the tool its plan reader.
\<close>

lemma read_keys_complete:
  assumes "read_keys contents beam_parameter_keys params = (None, params')"
  shows "\<forall>key \<in> set beam_parameter_keys. params' key \<noteq> None"
  using assms by (auto simp: beam_parameter_keys_def split: sum.splits)

lemma constructed_on_dataset_complete:
  assumes "RTPlanReader_init stored (Some contents) = Inr plan"
  shows "\<forall>key \<in> set beam_parameter_keys. beam_parameters plan key \<noteq> None"
proof -
  obtain e params where r: "read_keys contents beam_parameter_keys Map.empty = (e, params)"
    by (cases "read_keys contents beam_parameter_keys Map.empty")
  with assms have "e = None" "beam_parameters plan = params"
    by (auto simp: RTPlanReader_init_def load_dataset_def read_beam_parameters_from_dataset_def
        split: option.splits)
  with read_keys_complete [of contents Map.empty params] r show ?thesis by simp
qed



text \<open>
  The presence test of \<^verbatim>\<open>get_zero_point\<close> names three keys and leaves the SAD out: on a
  dictionary with the three keys and no SAD the read of \<^verbatim>\<open>beam_params_dict['SAD']\<close>
  would raise KeyError. No reader holds such a dictionary.
\<close>

lemma dictionary_without_sad:
  "get_zero_point
     \<lparr>dose_reader = None,
      plan_reader = Some \<lparr>plan_ds = None, beam_parameters = beam_without_sad\<rparr>\<rparr>
     ''INTERCEPT_CAX_SURFACE'' = Inl (KeyError ''SAD'')"
  by (simp add: get_zero_point_def beam_without_sad_def getitem_def float_each_def py_float_def)

lemma dictionary_without_sad_unreachable:
  "\<not> reachable \<lparr>plan_ds = d, beam_parameters = beam_without_sad\<rparr>"
  using reachable_gantry_last [of "\<lparr>plan_ds = d, beam_parameters = beam_without_sad\<rparr>"]
  by (auto simp: beam_without_sad_def)



section \<open>Sampling without endpoints\<close>

text \<open>
  C10. When \<open>p0\<close> or \<open>p1\<close> is \<^verbatim>\<open>None\<close> the method returns \<^verbatim>\<open>None\<close> and raises nothing.
  The result does not depend on the grid, the matrix, the spacing or the flag, and the
  reader is returned as it was: no interpolator has been configured or called.
\<close>

theorem get_profile_without_endpoints:
  "p0 = None \<or> p1 = None \<Longrightarrow>
     RTDoseReader_get_profile self p0 p1 spacing return_coords = Inr (None, self)"
  by (auto simp: RTDoseReader_get_profile_def split: option.splits)

theorem get_profile_without_endpoints_witness:
  "RTDoseReader_get_profile example_reader None None 1 False = Inr (None, example_reader) \<and>
   RTDoseReader_get_profile example_reader (Some [0, 0, 0]) None 1 False
     = Inr (None, example_reader) \<and>
   RTDoseReader_get_profile example_reader None (Some [10, 0, 0]) 1 True
     = Inr (None, example_reader)"
  using get_profile_without_endpoints [of None None example_reader 1 False]
        get_profile_without_endpoints [of "Some [0, 0, 0]" None example_reader 1 False]
        get_profile_without_endpoints [of None "Some [10, 0, 0]" example_reader 1 True]
  by simp

section \<open>Determinants of small matrices\<close>

lemma del_Nil: "del j [] = []"
  by (simp add: del_def)

lemma del_Cons_0: "del 0 (x # xs) = xs"
  by (simp add: del_def)

lemma del_Cons_Suc: "del (Suc j) (x # xs) = x # del j xs"
  by (simp add: del_def)

lemmas del_simps = del_Nil del_Cons_0 del_Cons_Suc

lemma det3: "det [[a, b, c], [d, e, f], [g, h, i]] =
    a * (e * i - f * h) - b * (d * i - f * g) + c * (d * h - e * g)"
  by (simp add: del_simps upt_rec algebra_simps)

lemma det4_affine:
  "det [[a0, b0, c0, t0], [a1, b1, c1, t1], [a2, b2, c2, t2], [0, 0, 0, 1]] =
     a0 * (b1 * c2 - b2 * c1) - b0 * (a1 * c2 - a2 * c1) + c0 * (a1 * b2 - a2 * b1)"
  by (simp add: del_simps upt_rec algebra_simps)

lemma example_inv: "np_linalg_inv example_matrix = Inr example_matrix"
  by (simp add: np_linalg_inv_def example_matrix_def det4_affine cofactor_def del_simps det3
      del: det.simps)


section \<open>Degenerate geometry\<close>

text \<open>
  C7, as the code has it. The claim asks the construction of the transform to detect
  linearly dependent orientation vectors and to report them. The construction makes no
  test on the orientation vectors at all: for every position of three values,
  orientation of six values, pair of pixel spacings and three-dimensional pixel array,
  whatever the two orientation vectors are, the constructor raises nothing and stores
  the matrix of the DICOM equation as computed, with the cross product of the two
  vectors, scaled by the slice thickness, as its third column.
\<close>

theorem construction_makes_no_degeneracy_check:
  assumes "ImagePositionPatient ds = [px, py, pz]"
    and "ImageOrientationPatient ds = [u0, u1, u2, v0, v1, v2]"
    and "PixelSpacing ds = [row_spacing, column_spacing]"
    and "ds_pixel_array ds = Array3D a"
  shows "\<exists>reader. configure_dose_array ds = Inr reader \<and>
           pixel_to_coords_matrix reader =
             [[u0 * column_spacing, v0 * row_spacing,
               (u1 * v2 - u2 * v1) * SliceThickness ds, px],
              [u1 * column_spacing, v1 * row_spacing,
               (u2 * v0 - u0 * v2) * SliceThickness ds, py],
              [u2 * column_spacing, v2 * row_spacing,
               (u0 * v1 - u1 * v0) * SliceThickness ds, pz],
              [0, 0, 0, 1]] \<and>
           dicom_pixel_to_patient_slice [px, py, pz] [u0, u1, u2, v0, v1, v2]
               row_spacing column_spacing (SliceThickness ds)
             = Inr (pixel_to_coords_matrix reader)"
  using assms
  by (cases "shape a")
     (simp add: configure_dose_array_def transpose_210_def dicom_pixel_to_patient_slice_def
        np_cross_def)

lemma degenerate_configure:
  "configure_dose_array degenerate_dataset =
     Inr (example_reader\<lparr>iop := [1, 0, 0, 1, 0, 0], pixel_to_coords_matrix := degenerate_matrix\<rparr>)"
  by (simp add: configure_dose_array_def degenerate_dataset_def example_dataset_def example_reader_def
      dicom_pixel_to_patient_slice_def np_cross_def transpose_210_def degenerate_matrix_def)

text \<open>
  C7, as stated, fails: with both orientation vectors along the x axis the constructor
  raises nothing and keeps a matrix whose third column is zero, of determinant zero.
\<close>

theorem degenerate_geometry_counterexample:
  "configure_dose_array degenerate_dataset =
     Inr (example_reader\<lparr>iop := [1, 0, 0, 1, 0, 0], pixel_to_coords_matrix := degenerate_matrix\<rparr>) \<and>
   dicom_pixel_to_patient_slice [0, 0, 0] [1, 0, 0, 1, 0, 0] 1 1 1 = Inr degenerate_matrix \<and>
   det degenerate_matrix = 0"
  by (simp add: degenerate_configure dicom_pixel_to_patient_slice_def np_cross_def
      degenerate_matrix_def det4_affine del: det.simps)

text \<open>The same dataset, and a geometry whose second vector is three times the first.\<close>

theorem construction_makes_no_degeneracy_check_witness:
  "(\<exists>reader. configure_dose_array degenerate_dataset = Inr reader \<and>
      pixel_to_coords_matrix reader = [[1, 1, 0, 0], [0, 0, 0, 0], [0, 0, 0, 0], [0, 0, 0, 1]]) \<and>
   (\<exists>reader. configure_dose_array
        (example_dataset\<lparr>ImageOrientationPatient := [1, 2, 3, 3, 6, 9], SliceThickness := 5\<rparr>)
          = Inr reader \<and>
      pixel_to_coords_matrix reader = [[1, 3, 0, 0], [2, 6, 0, 0], [3, 9, 0, 0], [0, 0, 0, 1]])"
  using construction_makes_no_degeneracy_check
          [of degenerate_dataset 0 0 0 1 0 0 1 0 0 1 1
              "\<lparr>shape = (3, 4, 12), entry = (\<lambda>f r c. int (100 * f + 10 * r + c))\<rparr>"]
        construction_makes_no_degeneracy_check
          [of "example_dataset\<lparr>ImageOrientationPatient := [1, 2, 3, 3, 6, 9], SliceThickness := 5\<rparr>"
              0 0 0 1 2 3 3 6 9 1 1
              "\<lparr>shape = (3, 4, 12), entry = (\<lambda>f r c. int (100 * f + 10 * r + c))\<rparr>"]
  by (auto simp: degenerate_dataset_def example_dataset_def)

text \<open>
  What the constructor does check is the form of the attributes: a single-frame pixel
  array cannot be transposed along three axes, and a single pixel spacing cannot be
  indexed.
\<close>

lemma configure_dose_array_single_frame:
  "ds_pixel_array ds = Array2D s e \<Longrightarrow> configure_dose_array ds = Inl AxesError"
  by (simp add: configure_dose_array_def transpose_210_def)

lemma configure_dose_array_single_spacing:
  "ds_pixel_array ds = Array3D a \<Longrightarrow> length (PixelSpacing ds) < 2 \<Longrightarrow>
     configure_dose_array ds = Inl TypeError"
  by (cases "shape a") (simp add: configure_dose_array_def transpose_210_def)

section \<open>Outside the grid\<close>

lemma configured_call:
  "interpolator_call (configure_interpolator self) xi =
     Inr (map (\<lambda>p. if out_of_bounds (shape (pixel_array self)) p then 0
                    else case interpolation_method self of
                           Nearest \<Rightarrow> evaluate_nearest (dose_array self) (shape (pixel_array self)) p
                         | Linear \<Rightarrow> evaluate_linear (dose_array self) (shape (pixel_array self)) p)
            xi)"
  by (cases "interpolation_method self")
     (simp_all add: interpolator_call_def configure_interpolator_def
        RegularGridInterpolator_call_def)

text \<open>
  C8. The interpolator that the reader builds (\<^verbatim>\<open>_configure_interpolator\<close>, run by
  \<^verbatim>\<open>set_interpolation_method\<close> and by the first sampling) is built with
  \<^verbatim>\<open>bounds_error=False\<close> and \<^verbatim>\<open>fill_value=0\<close>. Called on any array of points it raises
  nothing and returns one value per point, and the value of every point whose index
  lies outside the bounds of the voxel array along some axis is exactly 0, for the
  nearest and for the linear kernel.
\<close>

theorem interpolator_zero_outside_grid:
  assumes "shape (pixel_array self) = (d0, d1, d2)"
    and "0 < d0" and "0 < d1" and "0 < d2"
    and "configured = configure_interpolator self \<or>
         set_interpolation_method self name = Inr configured"
  shows "\<exists>doses.
     interpolator_call configured xi = Inr doses \<and> length doses = length xi \<and>
     (\<forall>n < length xi.
        (xi ! n) ! 0 < 0 \<or> real d0 - 1 < (xi ! n) ! 0 \<or>
        (xi ! n) ! 1 < 0 \<or> real d1 - 1 < (xi ! n) ! 1 \<or>
        (xi ! n) ! 2 < 0 \<or> real d2 - 1 < (xi ! n) ! 2 \<longrightarrow> doses ! n = 0)"
proof -
  from assms(5) obtain self' where c: "configured = configure_interpolator self'"
    and s: "shape (pixel_array self') = shape (pixel_array self)"
    by (auto simp: set_interpolation_method_def split: if_splits)
  show ?thesis
    unfolding c configured_call s assms(1)
    by (simp add: out_of_bounds_def)
qed

text \<open>
  The specification's example, an index of shape + 1000, and a point half a voxel
  outside one face, for both kernels; the last corner inside the grid keeps its dose.
  An interpolator built with \<^verbatim>\<open>bounds_error=True\<close> would raise, and one built with
  \<^verbatim>\<open>fill_value=None\<close> would extrapolate.
\<close>

theorem interpolator_zero_outside_grid_witness:
  "interpolator_call (configure_interpolator example_reader)
       [[1012, 1004, 1003], [5, - 1 / 2, 1], [11, 3, 2]] = Inr [0, 0, 241 / 10] \<and>
   (\<exists>configured. set_interpolation_method example_reader ''nearest'' = Inr configured \<and>
      interpolator_call configured [[1012, 1004, 1003], [5, - 1 / 2, 1], [11, 3, 2]]
        = Inr [0, 0, 241 / 10])"
  using interpolator_zero_outside_grid
          [of example_reader 12 4 3 "configure_interpolator example_reader" undefined
              "[[1012, 1004, 1003], [5, - 1 / 2, 1], [11, 3, 2]]"]
        interpolator_zero_outside_grid
          [of example_reader 12 4 3
              "configure_interpolator (example_reader\<lparr>interpolation_method := Nearest\<rparr>)"
              "''nearest''" "[[1012, 1004, 1003], [5, - 1 / 2, 1], [11, 3, 2]]"]
  by (simp add: set_interpolation_method_def configured_call example_reader_def out_of_bounds_def
      evaluate_linear_def evaluate_nearest_def axis_cell_def dose_array_def)

lemma other_interpolators:
  "RegularGridInterpolator_call
     \<lparr>grid = (12, 4, 3), rgi_values = dose_array example_reader, rgi_method = Linear,
      bounds_error = True, fill_value = Some 0\<rparr> [[5, - 1 / 2, 1]] = Inl OutOfBoundsError"
  "RegularGridInterpolator_call
     \<lparr>grid = (12, 4, 3), rgi_values = dose_array example_reader, rgi_method = Linear,
      bounds_error = False, fill_value = None\<rparr> [[5, - 1 / 2, 1]] = Inr [10]"
  "interpolator_call example_reader [[5, - 1 / 2, 1]] = Inl TypeError"
  by (simp_all add: RegularGridInterpolator_call_def out_of_bounds_def evaluate_linear_def
      axis_cell_def dose_array_def example_reader_def interpolator_call_def)

section \<open>Rows\<close>

lemma coords_simps [simp]:
  "coords (x, y, z, d) = (x, y, z)"
  "coords (scale_dose c r) = coords r"
  "coords (divide_dose c r) = coords r"
  by (simp_all add: coords_def scale_dose_def divide_dose_def split: prod.splits)

lemma dose_simps [simp]:
  "dose (x, y, z, d) = d"
  "dose (scale_dose c r) = dose r * c"
  "dose (divide_dose c r) = dose r / c"
  by (simp_all add: dose_def scale_dose_def divide_dose_def split: prod.splits)

lemma coords_zip:
  assumes "length ys = length xs" and "length zs = length xs" and "length ds = length xs"
  shows "map coords (zip xs (zip ys (zip zs ds))) = zip xs (zip ys zs)"
  using assms by (intro nth_equalityI) simp_all

lemma dose_zip:
  assumes "length ys = length xs" and "length zs = length xs" and "length ds = length xs"
  shows "map dose (zip xs (zip ys (zip zs ds))) = ds"
  using assms by (intro nth_equalityI) simp_all

section \<open>The dose reader's profile\<close>

lemma linspace_xyz_lengths:
  assumes "linspace_xyz a b n = Inr (xs, ys, zs)"
  shows "0 \<le> n \<and> length xs = nat n \<and> length ys = nat n \<and> length zs = nat n"
  using assms
  by (auto simp: linspace_xyz_def split: sum.splits dest: np_linspace_length)

lemma interpolator_call_length:
  "interpolator_call self xi = Inr ds \<Longrightarrow> length ds = length xi"
  by (auto simp: interpolator_call_def RegularGridInterpolator_call_def
      split: option.splits if_splits)

lemma reader_profile_rows:
  assumes "RTDoseReader_get_profile self (Some a) (Some b) spacing return_coords
             = Inr (result, self')"
  shows "\<exists>xs ys zs ds.
           length a = 3 \<and> length b = 3 \<and> spacing \<noteq> 0 \<and>
           linspace_xyz a b (\<lfloor>np_linalg_norm (map2 (-) b a) / spacing\<rfloor> + 1) = Inr (xs, ys, zs) \<and>
           length ds = length xs \<and>
           result = Some (if return_coords then Rows (zip xs (zip ys (zip zs ds))) else Doses ds) \<and>
           dose_units self' = dose_units self"
proof -
  note d = RTDoseReader_get_profile_def
  have len: "length a = 3" "length b = 3"
    using assms by (auto simp: d split: if_splits)
  obtain samples where sc: "sample_count (np_linalg_norm (map2 (-) b a)) spacing = Inr samples"
    using assms len by (cases "sample_count (np_linalg_norm (map2 (-) b a)) spacing") (auto simp: d)
  obtain xs ys zs where ls: "linspace_xyz a b samples = Inr (xs, ys, zs)"
    using assms len sc by (cases "linspace_xyz a b samples") (auto simp: d)
  obtain minv where inv: "np_linalg_inv (pixel_to_coords_matrix self) = Inr minv"
    using assms len sc ls by (cases "np_linalg_inv (pixel_to_coords_matrix self)") (auto simp: d)
  have l4: "length minv = 4"
    using assms len sc ls inv by (auto simp: d split: if_splits)
  define new where "new = (if interpolator self = None then configure_interpolator self else self)"
  define line where
    "line = map (\<lambda>(x, y, z). matvec (take 3 minv) [x, y, z, 1]) (zip xs (zip ys zs))"
  obtain ds where ic: "interpolator_call new line = Inr ds"
    using assms len sc ls inv l4
    by (cases "interpolator_call new line") (auto simp: d Let_def line_def new_def)
  have res: "result = Some (if return_coords then Rows (zip xs (zip ys (zip zs ds))) else Doses ds)"
    and self': "self' = new"
    using assms len sc ls inv l4 ic by (auto simp: d Let_def line_def new_def)
  from sc have sp: "spacing \<noteq> 0"
    and samples: "samples = \<lfloor>np_linalg_norm (map2 (-) b a) / spacing\<rfloor> + 1"
    by (auto simp: sample_count_def split: if_splits)
  from linspace_xyz_lengths [OF ls] have l: "length ys = length xs" "length zs = length xs"
    by simp_all
  have du: "dose_units self' = dose_units self"
    by (simp add: self' new_def configure_interpolator_def)
  have dl: "length ds = length xs"
    using interpolator_call_length [OF ic] by (simp add: line_def l)
  show ?thesis
    using len sp ls res du dl unfolding samples by blast
qed

text \<open>The sample count law and the sampled points of a profile with coordinates.\<close>

lemma reader_profile_count:
  assumes "RTDoseReader_get_profile self (Some p0) (Some p1) spacing True
             = Inr (Some (Rows rows), self')"
  shows "int (length rows) = \<lfloor>np_linalg_norm (map2 (-) p1 p0) / spacing\<rfloor> + 1 \<and>
         map coords rows = evenly_spaced p0 p1 (length rows)"
proof -
  from reader_profile_rows [OF assms] obtain xs ys zs ds where
    ls: "linspace_xyz p0 p1 (\<lfloor>np_linalg_norm (map2 (-) p1 p0) / spacing\<rfloor> + 1) = Inr (xs, ys, zs)"
    and ds: "length ds = length xs"
    and rows: "rows = zip xs (zip ys (zip zs ds))"
    by auto
  note l = linspace_xyz_lengths [OF ls]
  have n: "length rows = nat (\<lfloor>np_linalg_norm (map2 (-) p1 p0) / spacing\<rfloor> + 1)"
    using l ds by (simp add: rows)
  have "map coords rows = zip xs (zip ys zs)"
    unfolding rows using l ds by (intro coords_zip) simp_all
  then show ?thesis
    using linspace_xyz_evenly_spaced [OF ls] n l by simp
qed

lemma evenly_spaced_endpoints:
  assumes "2 \<le> n" and "length p0 = 3" and "length p1 = 3"
  shows "hd (evenly_spaced p0 p1 n) = (p0 ! 0, p0 ! 1, p0 ! 2) \<and>
         last (evenly_spaced p0 p1 n) = (p1 ! 0, p1 ! 1, p1 ! 2)"
proof -
  from assms(1) have ne: "[0..<n] \<noteq> []" and n1: "\<not> n \<le> 1" and r: "real (n - 1) \<noteq> 0"
    by auto
  have h: "hd [0..<n] = 0" using assms(1) by (simp add: hd_upt)
  have l: "last [0..<n] = n - 1" using assms(1) by (simp add: last_upt)
  have d: "real (n - 1) / real (n - 1) = 1" using r by (rule divide_self)
  show ?thesis
    unfolding evenly_spaced_def using ne n1
    by (simp add: hd_map last_map h l d Let_def)
qed

lemma evenly_spaced_single: "evenly_spaced p0 p1 1 = [(p0 ! 0, p0 ! 1, p0 ! 2)]"
  by (simp add: evenly_spaced_def)

section \<open>Evaluating the example grid\<close>

lemma sqrt_100: "sqrt 100 = 10"
  using real_sqrt_abs2 [of 10] by simp

lemma np_linspace_1: "np_linspace a b 1 = Inr [a]"
  by (simp add: np_linspace_def)

lemma np_linspace_4: "np_linspace a b 4 = Inr [a, a + (b - a) / 3, a + 2 * ((b - a) / 3), b]"
  by (simp add: np_linspace_def upt_rec Let_def)

lemmas example_grid_simps =
  example_matrix_def matvec_def dot_def interpolator_call_def configure_interpolator_def
  RegularGridInterpolator_call_def out_of_bounds_def evaluate_linear_def axis_cell_def
  dose_array_def

text \<open>
  C1. The sample count is \<open>floor(distance / spacing) + 1\<close> and the samples are evenly
  spaced (\<open>reader_profile_count\<close>), and both endpoints are sampled whenever there are at
  least two samples (\<open>evenly_spaced_endpoints\<close>). The claim also promises both endpoints
  whenever the spacing does not divide the distance. A segment shorter than the spacing
  breaks that: from \<open>(0, 0, 0)\<close> to \<open>(1, 0, 0)\<close> with spacing 3 the count is 1,
  \<^verbatim>\<open>np.linspace(x0, x1, 1)\<close> is the start alone, and \<open>(1, 0, 0)\<close> is not sampled.
\<close>

theorem single_sample_omits_end_point:
  "RTDoseReader_get_profile example_reader (Some [0, 0, 0]) (Some [1, 0, 0]) 3 True =
     Inr (Some (Rows [(0, 0, 0, 0)]), configure_interpolator example_reader)"
  apply (simp add: RTDoseReader_get_profile_def np_linalg_norm_def sample_count_def
      linspace_xyz_def np_linspace_1)
  apply (simp add: example_reader_def example_inv)
  apply (simp add: example_grid_simps)
  done

text \<open>
  The specification's example: from \<open>(0, 0, 0)\<close> to \<open>(10, 0, 0)\<close> with spacing 3 there
  are 4 samples, the first and the last at the endpoints.
\<close>

lemma example_profile_spacing_3:
  "RTDoseReader_get_profile example_reader (Some [0, 0, 0]) (Some [10, 0, 0]) 3 True =
     Inr (Some (Rows [(0, 0, 0, 0), (10 / 3, 0, 0, 1 / 3), (20 / 3, 0, 0, 2 / 3), (10, 0, 0, 1)]),
          configure_interpolator example_reader)"
  apply (simp add: RTDoseReader_get_profile_def np_linalg_norm_def sample_count_def
      linspace_xyz_def sqrt_100 np_linspace_4)
  apply (simp add: example_reader_def example_inv)
  apply (simp add: example_grid_simps)
  done

section \<open>The zero point as an offset\<close>

lemma np_add_result_length:
  assumes "np_add p z = Inr a" and "length a = 3"
  shows "length z = 3 \<or> length z = 1"
  using assms by (auto simp: np_add_def split: if_splits)

lemma np_add_offset:
  assumes "np_add p z = Inr a" and "length p = 3"
  shows "a = [p ! 0 + offset z 0, p ! 1 + offset z 1, p ! 2 + offset z 2]"
proof -
  obtain x y w where p: "p = [x, y, w]" using length3 [OF assms(2)] by blast
  show ?thesis
  proof (cases "length z = 3")
    case True
    then obtain c0 c1 c2 where z: "z = [c0, c1, c2]" using length3 by blast
    with assms(1) show ?thesis by (simp add: np_add_def p offset_def)
  next
    case False
    with assms(1) have "length z = 1" by (auto simp: np_add_def p split: if_splits)
    with assms(1) False show ?thesis by (simp add: np_add_def p offset_def)
  qed
qed

lemma subtract_zero_point_offset:
  assumes "subtract_zero_point zp rows = Inr shifted"
  shows "\<exists>z. zp = Vector z \<and> (length z = 3 \<or> length z = 1) \<and>
           shifted = map (\<lambda>(x, y, z', d).
             (x - offset z 0, y - offset z 1, z' - offset z 2, d)) rows"
  using assms
  by (cases zp) (auto simp: subtract_zero_point_def offset_def split: if_splits)

lemma subtract_zero_point_succeeds:
  assumes "length z = 3 \<or> length z = 1"
  shows "subtract_zero_point (Vector z) rows =
           Inr (map (\<lambda>(x, y, z', d). (x - offset z 0, y - offset z 1, z' - offset z 2, d)) rows)"
  using assms by (auto simp: subtract_zero_point_def offset_def)


section \<open>Dose units and monitor units keep the coordinates\<close>

lemma convert_dose_units_coords:
  assumes "convert_dose_units native u rows = Inr converted"
  shows "map coords converted = map coords rows"
  using assms by (auto simp: convert_dose_units_def split: if_splits)

lemma normalize_profile_coords:
  assumes "normalize_profile self n rows = Inr prof"
  shows "map coords prof = map coords rows"
  using assms
  by (auto simp: normalize_profile_def split: if_splits option.splits sum.splits)

section \<open>The steps of a successful ProfileTool.get\_profile\<close>

lemma tool_profile_success:
  assumes "fst (ProfileTool_get_profile self p0 p1 spacing rc u n zp) = Inr (Some prof)"
  shows "\<exists>reader z a b raw reader' shifted converted.
    dose_reader self = Some reader \<and> resolve_zero_point self zp = Inr (Vector z) \<and>
    np_add p0 z = Inr a \<and> np_add p1 z = Inr b \<and>
    RTDoseReader_get_profile reader (Some a) (Some b) (spacing * 10) rc
      = Inr (Some (Rows raw), reader') \<and>
    subtract_zero_point (Vector z) raw = Inr shifted \<and>
    convert_dose_units (dose_units reader') u shifted = Inr converted \<and>
    normalize_profile (self\<lparr>dose_reader := Some reader'\<rparr>) n converted = Inr prof"
proof -
  note d = ProfileTool_get_profile_def
  obtain zp' where zp': "resolve_zero_point self zp = Inr zp'"
    using assms by (cases "resolve_zero_point self zp") (auto simp: d)
  obtain reader where reader: "dose_reader self = Some reader"
    using assms zp' by (cases "dose_reader self") (auto simp: d)
  obtain a where a: "add_zero_point p0 zp' = Inr a"
    using assms zp' reader by (cases "add_zero_point p0 zp'") (auto simp: d)
  obtain b where b: "add_zero_point p1 zp' = Inr b"
    using assms zp' reader a by (cases "add_zero_point p1 zp'") (auto simp: d)
  obtain result reader' where
    run: "RTDoseReader_get_profile reader (Some a) (Some b) (spacing * 10) rc = Inr (result, reader')"
    using assms zp' reader a b
    by (cases "RTDoseReader_get_profile reader (Some a) (Some b) (spacing * 10) rc")
       (auto simp: d)
  have fin: "finish_profile (self\<lparr>dose_reader := Some reader'\<rparr>) (dose_units reader') zp' u n result
               = Inr prof"
    using assms zp' reader a b run by (auto simp: d Let_def split: sum.splits)
  obtain raw where raw: "result = Some (Rows raw)"
    using fin by (auto simp: finish_profile_def split: option.splits profile.splits)
  obtain shifted where shifted: "subtract_zero_point zp' raw = Inr shifted"
    using fin raw by (cases "subtract_zero_point zp' raw") (auto simp: finish_profile_def)
  obtain converted where
    converted: "convert_dose_units (dose_units reader') u shifted = Inr converted"
    using fin raw shifted
    by (cases "convert_dose_units (dose_units reader') u shifted") (auto simp: finish_profile_def)
  have norm: "normalize_profile (self\<lparr>dose_reader := Some reader'\<rparr>) n converted = Inr prof"
    using fin raw shifted converted by (simp add: finish_profile_def)
  obtain z where z: "zp' = Vector z"
    using subtract_zero_point_offset [OF shifted] by blast
  show ?thesis
    using zp' reader a b run raw shifted converted norm unfolding z
    by (auto simp: add_zero_point_def)
qed

lemma tool_profile_finish:
  assumes "dose_reader self = Some reader"
    and "resolve_zero_point self zp = Inr (Vector z)"
    and "np_add p0 z = Inr a" and "np_add p1 z = Inr b"
    and "RTDoseReader_get_profile reader (Some a) (Some b) (spacing * 10) rc
           = Inr (result, reader')"
  shows "fst (ProfileTool_get_profile self p0 p1 spacing rc u n zp) =
     (case finish_profile (self\<lparr>dose_reader := Some reader'\<rparr>) (dose_units reader')
             (Vector z) u n result of
        Inl e \<Rightarrow> Inl e
      | Inr profile \<Rightarrow> Inr (Some profile))"
  using assms
  by (simp add: ProfileTool_get_profile_def add_zero_point_def Let_def split: sum.splits)

section \<open>The coordinates of a profile\<close>

lemma np_linalg_norm_shift:
  assumes "length p0 = 3" and "length p1 = 3"
  shows "np_linalg_norm (map2 (-)
           [p1 ! 0 + c0, p1 ! 1 + c1, p1 ! 2 + c2] [p0 ! 0 + c0, p0 ! 1 + c1, p0 ! 2 + c2])
         = np_linalg_norm (map2 (-) p1 p0)"
proof -
  obtain x y w where p0: "p0 = [x, y, w]" using length3 [OF assms(1)] by blast
  obtain x' y' w' where p1: "p1 = [x', y', w']" using length3 [OF assms(2)] by blast
  show ?thesis by (simp add: np_linalg_norm_def p0 p1)
qed

lemma linspace_xyz_shift:
  assumes "linspace_xyz [x0 + c0, y0 + c1, w0 + c2] [x1 + c0, y1 + c1, w1 + c2] n
             = Inr (xs, ys, zs)"
  shows "linspace_xyz [x0, y0, w0] [x1, y1, w1] n =
           Inr (map (\<lambda>v. v - c0) xs, map (\<lambda>v. v - c1) ys, map (\<lambda>v. v - c2) zs)"
proof -
  from assms have x: "np_linspace (x0 + c0) (x1 + c0) n = Inr xs"
    and y: "np_linspace (y0 + c1) (y1 + c1) n = Inr ys"
    and z: "np_linspace (w0 + c2) (w1 + c2) n = Inr zs"
    by (auto simp: linspace_xyz_def split: sum.splits)
  show ?thesis
    by (simp add: linspace_xyz_def np_linspace_shift [OF x] np_linspace_shift [OF y]
        np_linspace_shift [OF z])
qed

lemma shifted_coords_zip:
  assumes "length ys = length xs" and "length zs = length xs" and "length ds = length xs"
  shows "map coords (map (\<lambda>(x, y, z', d). (x - c0, y - c1, z' - c2, d))
           (zip xs (zip ys (zip zs ds))))
         = zip (map (\<lambda>v. v - c0) xs) (zip (map (\<lambda>v. v - c1) ys) (map (\<lambda>v. v - c2) zs))"
  using assms by (intro nth_equalityI) simp_all

lemma tool_profile_coords:
  assumes "length p0 = 3" and "length p1 = 3"
    and "fst (ProfileTool_get_profile self p0 p1 spacing rc u n zp) = Inr (Some prof)"
  shows "map coords prof = evenly_spaced p0 p1
           (nat (\<lfloor>np_linalg_norm (map2 (-) p1 p0) / (spacing * 10)\<rfloor> + 1))"
proof -
  from tool_profile_success [OF assms(3)] obtain reader z a b raw reader' shifted converted where
    a: "np_add p0 z = Inr a" and b: "np_add p1 z = Inr b"
    and run: "RTDoseReader_get_profile reader (Some a) (Some b) (spacing * 10) rc
                = Inr (Some (Rows raw), reader')"
    and shifted: "subtract_zero_point (Vector z) raw = Inr shifted"
    and converted: "convert_dose_units (dose_units reader') u shifted = Inr converted"
    and norm: "normalize_profile (self\<lparr>dose_reader := Some reader'\<rparr>) n converted = Inr prof"
    by blast
  obtain x0 y0 w0 where p0: "p0 = [x0, y0, w0]" using length3 [OF assms(1)] by blast
  obtain x1 y1 w1 where p1: "p1 = [x1, y1, w1]" using length3 [OF assms(2)] by blast
  let ?c0 = "offset z 0" and ?c1 = "offset z 1" and ?c2 = "offset z 2"
  have a': "a = [x0 + ?c0, y0 + ?c1, w0 + ?c2]"
    using np_add_offset [OF a assms(1)] by (simp add: p0)
  have b': "b = [x1 + ?c0, y1 + ?c1, w1 + ?c2]"
    using np_add_offset [OF b assms(2)] by (simp add: p1)
  have nrm: "np_linalg_norm (map2 (-) b a) = np_linalg_norm (map2 (-) p1 p0)"
    using np_linalg_norm_shift [OF assms(1,2), of ?c0 ?c1 ?c2] by (simp add: a' b' p0 p1)
  define k where "k = \<lfloor>np_linalg_norm (map2 (-) p1 p0) / (spacing * 10)\<rfloor> + 1"
  from reader_profile_rows [OF run] obtain xs ys zs ds where
    ls: "linspace_xyz a b k = Inr (xs, ys, zs)"
    and ds: "length ds = length xs"
    and raw: "Some (Rows raw) = Some (if rc then Rows (zip xs (zip ys (zip zs ds))) else Doses ds)"
    unfolding nrm k_def by blast
  from raw have raw': "raw = zip xs (zip ys (zip zs ds))"
    by (auto split: if_splits)
  note l = linspace_xyz_lengths [OF ls]
  have "linspace_xyz [x0, y0, w0] [x1, y1, w1] k =
           Inr (map (\<lambda>v. v - ?c0) xs, map (\<lambda>v. v - ?c1) ys, map (\<lambda>v. v - ?c2) zs)"
    by (rule linspace_xyz_shift) (use ls in \<open>simp add: a' b'\<close>)
  then have ls': "linspace_xyz p0 p1 k =
           Inr (map (\<lambda>v. v - ?c0) xs, map (\<lambda>v. v - ?c1) ys, map (\<lambda>v. v - ?c2) zs)"
    by (simp add: p0 p1)
  from subtract_zero_point_offset [OF shifted] have
    sh: "shifted = map (\<lambda>(x, y, z', d). (x - ?c0, y - ?c1, z' - ?c2, d)) raw"
    by auto
  have "map coords shifted =
      zip (map (\<lambda>v. v - ?c0) xs) (zip (map (\<lambda>v. v - ?c1) ys) (map (\<lambda>v. v - ?c2) zs))"
    unfolding sh raw' using l ds by (intro shifted_coords_zip) simp_all
  also have "\<dots> = evenly_spaced p0 p1 (nat k)"
    by (rule linspace_xyz_evenly_spaced [OF ls'])
  finally have "map coords shifted = evenly_spaced p0 p1 (nat k)" .
  then show ?thesis
    using convert_dose_units_coords [OF converted] normalize_profile_coords [OF norm]
    by (simp add: k_def)
qed

text \<open>
  In exact arithmetic the zero point cancels. For 3-D endpoints, the coordinate columns
  of every profile that \<^verbatim>\<open>ProfileTool.get_profile\<close> returns are the points of
  \<^verbatim>\<open>np.linspace\<close> between \<open>p0\<close> and \<open>p1\<close>, as many as the distance and the spacing (in
  millimetres, ten times the argument) give: the zero point added to the endpoints
  before sampling is subtracted again afterwards, and the distance does not depend on
  it. Two runs that differ only in the zero point return the same coordinate columns.
\<close>

lemma zero_point_shift_cancels:
  assumes "length p0 = 3" and "length p1 = 3"
    and "fst (ProfileTool_get_profile self p0 p1 spacing rc u n zp) = Inr (Some prof)"
    and "fst (ProfileTool_get_profile self p0 p1 spacing rc u n zp') = Inr (Some prof')"
  shows "map coords prof = evenly_spaced p0 p1
           (nat (\<lfloor>np_linalg_norm (map2 (-) p1 p0) / (spacing * 10)\<rfloor> + 1)) \<and>
         map coords prof' = map coords prof"
  using tool_profile_coords [OF assms(1,2,3)] tool_profile_coords [OF assms(1,2,4)] by simp

section \<open>The example tool\<close>

lemma example_reader_run:
  "RTDoseReader_get_profile (configure_interpolator (example_reader\<lparr>dose_units := units\<rparr>))
       (Some [0, 0, 0]) (Some [10, 0, 0]) 3 True =
     Inr (Some (Rows [(0, 0, 0, 0), (10 / 3, 0, 0, 1 / 3), (20 / 3, 0, 0, 2 / 3), (10, 0, 0, 1)]),
          configure_interpolator (example_reader\<lparr>dose_units := units\<rparr>))"
  apply (simp add: RTDoseReader_get_profile_def np_linalg_norm_def sample_count_def
      linspace_xyz_def sqrt_100 np_linspace_4)
  apply (simp add: example_reader_def example_inv configure_interpolator_def)
  apply (simp add: example_grid_simps)
  done

lemma example_reader_run_outside:
  "RTDoseReader_get_profile (configure_interpolator (example_reader\<lparr>dose_units := units\<rparr>))
       (Some [0, 10, 0]) (Some [10, 10, 0]) 3 True =
     Inr (Some (Rows [(0, 10, 0, 0), (10 / 3, 10, 0, 0), (20 / 3, 10, 0, 0), (10, 10, 0, 0)]),
          configure_interpolator (example_reader\<lparr>dose_units := units\<rparr>))"
  apply (simp add: RTDoseReader_get_profile_def np_linalg_norm_def sample_count_def
      linspace_xyz_def sqrt_100 np_linspace_4)
  apply (simp add: example_reader_def example_inv configure_interpolator_def)
  apply (simp add: example_grid_simps)
  done

lemma example_tool_readers:
  "dose_reader (example_tool_with units beam) =
     Some (configure_interpolator (example_reader\<lparr>dose_units := units\<rparr>))"
  "plan_reader (example_tool_with units beam)
     = Some \<lparr>plan_ds = Some (dataset_of beam), beam_parameters = beam\<rparr>"
  "example_tool_with units beam
     \<lparr>dose_reader := Some (configure_interpolator (example_reader\<lparr>dose_units := units\<rparr>))\<rparr>
   = example_tool_with units beam"
  by (simp_all add: example_tool_with_def)

lemma example_units:
  "dose_units (configure_interpolator (example_reader\<lparr>dose_units := units\<rparr>)) = units"
  by (simp add: configure_interpolator_def)


lemma example_reader_run_short:
  "RTDoseReader_get_profile (configure_interpolator (example_reader\<lparr>dose_units := units\<rparr>))
       (Some [0, 0, 0]) (Some [1, 0, 0]) 3 True =
     Inr (Some (Rows [(0, 0, 0, 0)]),
          configure_interpolator (example_reader\<lparr>dose_units := units\<rparr>))"
  apply (simp add: RTDoseReader_get_profile_def np_linalg_norm_def sample_count_def
      linspace_xyz_def np_linspace_1)
  apply (simp add: example_reader_def example_inv configure_interpolator_def)
  apply (simp add: example_grid_simps)
  done

lemma example_reader_run_short_outside:
  "RTDoseReader_get_profile (configure_interpolator (example_reader\<lparr>dose_units := units\<rparr>))
       (Some [0, 10, 0]) (Some [1, 10, 0]) 3 True =
     Inr (Some (Rows [(0, 10, 0, 0)]),
          configure_interpolator (example_reader\<lparr>dose_units := units\<rparr>))"
  apply (simp add: RTDoseReader_get_profile_def np_linalg_norm_def sample_count_def
      linspace_xyz_def np_linspace_1)
  apply (simp add: example_reader_def example_inv configure_interpolator_def)
  apply (simp add: example_grid_simps)
  done

lemma upper_examples: "upper ''cGy'' = ''CGY''" "upper ''Gy'' = ''GY''"
  by (simp_all add: upper_def upper_char_def)

lemma tenth_times_ten: "(3 / 10 :: real) * 10 = 3"
  by simp

section \<open>Dose units\<close>



section \<open>Monitor units\<close>

text \<open>
  C6. On a grid with native unit GY whose sampling succeeds: without normalisation the
  returned doses are the unit-converted doses; with normalisation and monitor units
  \<open>mu\<close> among the beam parameters every one of them is divided by \<open>mu\<close>; with
  normalisation and no monitor units (or no plan reader) they are returned unchanged and
  nothing is raised. (The monitor units are not zero: a division by zero is not a real
  number.)
\<close>

theorem monitor_unit_normalization:
  assumes "dose_reader self = Some reader"
    and "resolve_zero_point self zp = Inr (Vector z)"
    and "np_add p0 z = Inr a" and "np_add p1 z = Inr b"
    and "RTDoseReader_get_profile reader (Some a) (Some b) (spacing * 10) True
           = Inr (Some (Rows raw), reader')"
    and "dose_units reader = ''GY''"
  shows "\<exists>shifted converted.
     subtract_zero_point (Vector z) raw = Inr shifted \<and>
     converted = (if upper u = ''CGY'' then map (scale_dose 100) shifted else shifted) \<and>
     fst (ProfileTool_get_profile self p0 p1 spacing True u False zp) = Inr (Some converted) \<and>
     (\<forall>plan mu. plan_reader self = Some plan \<and>
          beam_parameters plan ''Monitor Units'' = Some (Num mu) \<and> mu \<noteq> 0 \<longrightarrow>
        fst (ProfileTool_get_profile self p0 p1 spacing True u True zp)
          = Inr (Some (map (divide_dose mu) converted))) \<and>
     ((\<forall>plan. plan_reader self = Some plan \<longrightarrow>
          beam_parameters plan ''Monitor Units'' = None) \<longrightarrow>
        fst (ProfileTool_get_profile self p0 p1 spacing True u True zp) = Inr (Some converted))"
proof -
  from reader_profile_rows [OF assms(5)] have la: "length a = 3"
    and du: "dose_units reader' = dose_units reader" by auto
  have lz: "length z = 3 \<or> length z = 1"
    using assms(3) la by (rule np_add_result_length)
  let ?shifted = "map (\<lambda>(x, y, z', d). (x - offset z 0, y - offset z 1, z' - offset z 2, d)) raw"
  let ?converted = "if upper u = ''CGY'' then map (scale_dose 100) ?shifted else ?shifted"
  have sh: "subtract_zero_point (Vector z) raw = Inr ?shifted"
    using lz by (rule subtract_zero_point_succeeds)
  have run: "fst (ProfileTool_get_profile self p0 p1 spacing True u n zp) =
     (case normalize_profile (self\<lparr>dose_reader := Some reader'\<rparr>) n ?converted of
        Inl e \<Rightarrow> Inl e | Inr profile \<Rightarrow> Inr (Some profile))" for n
    using tool_profile_finish [OF assms(1-5), of u n]
    by (simp add: du assms(6) finish_profile_def sh convert_dose_units_def)
  have off: "fst (ProfileTool_get_profile self p0 p1 spacing True u False zp)
      = Inr (Some ?converted)"
    by (simp add: run normalize_profile_def)
  have present: "fst (ProfileTool_get_profile self p0 p1 spacing True u True zp)
      = Inr (Some (map (divide_dose mu) ?converted))"
    if "plan_reader self = Some plan" "beam_parameters plan ''Monitor Units'' = Some (Num mu)"
      "mu \<noteq> 0" for plan mu
    using that by (simp add: run normalize_profile_def py_float_def)
  have absent: "fst (ProfileTool_get_profile self p0 p1 spacing True u True zp)
      = Inr (Some ?converted)"
    if "\<forall>plan. plan_reader self = Some plan \<longrightarrow> beam_parameters plan ''Monitor Units'' = None"
    using that by (simp add: run normalize_profile_def split: option.splits)
  show ?thesis
    using sh off present absent by (intro exI [of _ ?shifted] exI [of _ ?converted]) blast
qed

text \<open>
  The specification's example, 200 monitor units: every dose is divided by 200; and a
  beam without monitor units.
\<close>

theorem monitor_unit_normalization_witness:
  "fst (ProfileTool_get_profile (example_tool 0) [0, 0, 0] [10, 0, 0] (3 / 10) True ''Gy'' False
          ZNone)
     = Inr (Some [(0, 0, 0, 0), (10 / 3, 0, 0, 1 / 3), (20 / 3, 0, 0, 2 / 3), (10, 0, 0, 1)]) \<and>
   fst (ProfileTool_get_profile (example_tool 0) [0, 0, 0] [10, 0, 0] (3 / 10) True ''Gy'' True
          ZNone)
     = Inr (Some [(0, 0, 0, 0), (10 / 3, 0, 0, 1 / 600), (20 / 3, 0, 0, 1 / 300),
                  (10, 0, 0, 1 / 200)]) \<and>
   fst (ProfileTool_get_profile (example_tool_with ''GY'' beam_without_monitor_units)
          [0, 0, 0] [10, 0, 0] (3 / 10) True ''Gy'' True ZNone)
     = Inr (Some [(0, 0, 0, 0), (10 / 3, 0, 0, 1 / 3), (20 / 3, 0, 0, 2 / 3), (10, 0, 0, 1)])"
proof -
  have zp: "resolve_zero_point t ZNone = Inr (Vector [0, 0, 0])" for t
    by (simp add: resolve_zero_point_def)
  have a: "np_add [0, 0, 0] [0, 0, 0] = Inr [0, 0, 0]"
    and b: "np_add [10, 0, 0] [0, 0, 0] = Inr [10, 0, 0]"
    by (simp_all add: np_add_def)
  have run: "RTDoseReader_get_profile
       (configure_interpolator (example_reader\<lparr>dose_units := ''GY''\<rparr>))
       (Some [0, 0, 0]) (Some [10, 0, 0]) (3 / 10 * 10) True =
     Inr (Some (Rows [(0, 0, 0, 0), (10 / 3, 0, 0, 1 / 3), (20 / 3, 0, 0, 2 / 3), (10, 0, 0, 1)]),
          configure_interpolator (example_reader\<lparr>dose_units := ''GY''\<rparr>))"
    unfolding tenth_times_ten by (rule example_reader_run)
  note r = example_tool_readers(1)
  have mu: "example_beam 0 ''Monitor Units'' = Some (Num 200)"
    "beam_without_monitor_units ''Monitor Units'' = None"
    by (simp_all add: example_beam_def beam_without_monitor_units_def)
  show ?thesis
    using
      monitor_unit_normalization [where self = "example_tool_with ''GY'' (example_beam 0)"
        and u = "''Gy''", OF r zp a b run example_units]
      monitor_unit_normalization [where self = "example_tool_with ''GY'' beam_without_monitor_units"
        and u = "''Gy''", OF r zp a b run example_units]
      mu
    by (auto simp: example_tool_def example_tool_readers upper_examples subtract_zero_point_def
        divide_dose_def)
qed

section \<open>Runs of the example tool\<close>

lemma example_tool_run:
  "fst (ProfileTool_get_profile (example_tool_with units beam) [0, 0, 0] [10, 0, 0] (3 / 10)
          True u n ZNone) =
     (case finish_profile (example_tool_with units beam) units (Vector [0, 0, 0]) u n
             (Some (Rows [(0, 0, 0, 0), (10 / 3, 0, 0, 1 / 3), (20 / 3, 0, 0, 2 / 3),
                          (10, 0, 0, 1)])) of
        Inl e \<Rightarrow> Inl e
      | Inr profile \<Rightarrow> Inr (Some profile))"
proof -
  have zp: "resolve_zero_point (example_tool_with units beam) ZNone = Inr (Vector [0, 0, 0])"
    by (simp add: resolve_zero_point_def)
  have a: "np_add [0, 0, 0] [0, 0, 0] = Inr [0, 0, 0]"
    and b: "np_add [10, 0, 0] [0, 0, 0] = Inr [10, 0, 0]"
    by (simp_all add: np_add_def)
  have run: "RTDoseReader_get_profile
       (configure_interpolator (example_reader\<lparr>dose_units := units\<rparr>))
       (Some [0, 0, 0]) (Some [10, 0, 0]) (3 / 10 * 10) True =
     Inr (Some (Rows [(0, 0, 0, 0), (10 / 3, 0, 0, 1 / 3), (20 / 3, 0, 0, 2 / 3), (10, 0, 0, 1)]),
          configure_interpolator (example_reader\<lparr>dose_units := units\<rparr>))"
    unfolding tenth_times_ten by (rule example_reader_run)
  show ?thesis
    using tool_profile_finish [OF example_tool_readers(1) zp a b run, of u n]
    by (simp add: example_units example_tool_readers(3))
qed

lemma example_zero_point:
  "resolve_zero_point (example_tool_with units (example_beam 0)) (ZStr ''default'')
     = Inr (Vector [0, 10, 0])"
  by (simp add: resolve_zero_point_def get_zero_point_def example_tool_with_def
      example_beam_def getitem_def float_each_def py_float_def zero_point_arithmetic)

lemma example_tool_run_default:
  "fst (ProfileTool_get_profile (example_tool_with units (example_beam 0))
          [0, 0, 0] [10, 0, 0] (3 / 10) True u n (ZStr ''default'')) =
     (case finish_profile (example_tool_with units (example_beam 0)) units (Vector [0, 10, 0]) u n
             (Some (Rows [(0, 10, 0, 0), (10 / 3, 10, 0, 0), (20 / 3, 10, 0, 0),
                          (10, 10, 0, 0)])) of
        Inl e \<Rightarrow> Inl e
      | Inr profile \<Rightarrow> Inr (Some profile))"
proof -
  have a: "np_add [0, 0, 0] [0, 10, 0] = Inr [0, 10, 0]"
    and b: "np_add [10, 0, 0] [0, 10, 0] = Inr [10, 10, 0]"
    by (simp_all add: np_add_def)
  have run: "RTDoseReader_get_profile
       (configure_interpolator (example_reader\<lparr>dose_units := units\<rparr>))
       (Some [0, 10, 0]) (Some [10, 10, 0]) (3 / 10 * 10) True =
     Inr (Some (Rows [(0, 10, 0, 0), (10 / 3, 10, 0, 0), (20 / 3, 10, 0, 0), (10, 10, 0, 0)]),
          configure_interpolator (example_reader\<lparr>dose_units := units\<rparr>))"
    unfolding tenth_times_ten by (rule example_reader_run_outside)
  show ?thesis
    using tool_profile_finish [OF example_tool_readers(1) example_zero_point a b run, of u n]
    by (simp add: example_units example_tool_readers(3))
qed

lemmas finish_simps =
  finish_profile_def subtract_zero_point_def convert_dose_units_def normalize_profile_def
  upper_examples scale_dose_def divide_dose_def py_float_def example_tool_readers

lemma example_profile_gy:
  "fst (ProfileTool_get_profile (example_tool 0) [0, 0, 0] [10, 0, 0] (3 / 10) True ''Gy'' False
          ZNone)
     = Inr (Some [(0, 0, 0, 0), (10 / 3, 0, 0, 1 / 3), (20 / 3, 0, 0, 2 / 3), (10, 0, 0, 1)])"
  by (simp add: example_tool_def example_tool_run finish_simps)

lemma example_profile_gy_default:
  "fst (ProfileTool_get_profile (example_tool 0) [0, 0, 0] [10, 0, 0] (3 / 10) True ''Gy'' False
          (ZStr ''default''))
     = Inr (Some [(0, 0, 0, 0), (10 / 3, 0, 0, 0), (20 / 3, 0, 0, 0), (10, 0, 0, 0)])"
  by (simp add: example_tool_def example_tool_run_default finish_simps)


text \<open>
  The origin and the derived zero point \<open>(0, 10, 0)\<close> on the example grid: the same four
  coordinates, different doses (the shifted segment lies outside the grid).
\<close>

lemma example_zero_point_shift:
  "fst (ProfileTool_get_profile (example_tool 0) [0, 0, 0] [10, 0, 0] (3 / 10) True ''Gy'' False
          ZNone)
     = Inr (Some [(0, 0, 0, 0), (10 / 3, 0, 0, 1 / 3), (20 / 3, 0, 0, 2 / 3), (10, 0, 0, 1)]) \<and>
   fst (ProfileTool_get_profile (example_tool 0) [0, 0, 0] [10, 0, 0] (3 / 10) True ''Gy'' False
          (ZStr ''default''))
     = Inr (Some [(0, 0, 0, 0), (10 / 3, 0, 0, 0), (20 / 3, 0, 0, 0), (10, 0, 0, 0)]) \<and>
   map coords [(0, 0, 0, 0), (10 / 3, 0, 0, 1 / 3), (20 / 3, 0, 0, 2 / 3), (10, 0, 0, 1)]
     = evenly_spaced [0, 0, 0] [10, 0, 0] 4 \<and>
   map coords [(0, 0, 0, 0), (10 / 3, 0, 0, 0), (20 / 3, 0, 0, 0), (10, 0, 0, 0)]
     = map coords [(0, 0, 0, 0), (10 / 3, 0, 0, 1 / 3), (20 / 3, 0, 0, 2 / 3), (10, 0, 0, 1)]"
proof -
  have l: "length [0, 0, 0 :: real] = 3" "length [10, 0, 0 :: real] = 3" by simp_all
  have n: "nat (\<lfloor>np_linalg_norm (map2 (-) [10, 0, 0] [0, 0, 0]) / (3 / 10 * 10)\<rfloor> + 1) = 4"
    by (simp add: np_linalg_norm_def sqrt_100)
  show ?thesis
    using zero_point_shift_cancels [OF l example_profile_gy example_profile_gy_default]
      example_profile_gy example_profile_gy_default
    unfolding n by simp
qed

text \<open>
  C9. The cancellation of the zero point holds in exact arithmetic
  (\<open>zero_point_shift_cancels\<close>), but the coordinate columns of a successful call are not
  always the points from \<open>p0\<close> to \<open>p1\<close> inclusive. On a segment shorter than the spacing
  the dose reader takes one sample, and the profile is the single row at \<open>p0\<close>: from
  \<open>(0, 0, 0)\<close> to \<open>(1, 0, 0)\<close> (millimetres) with the spacing 0.3 (centimetres), with the
  zero point at the origin and with the explicit zero point \<open>(0, 10, 0)\<close>, the call
  succeeds and \<open>(1, 0, 0)\<close> is not among the coordinates.
\<close>

theorem single_row_profile_omits_end_point:
  "fst (ProfileTool_get_profile (example_tool 0) [0, 0, 0] [1, 0, 0] (3 / 10) True ''Gy'' False
          ZNone)
     = Inr (Some [(0, 0, 0, 0)]) \<and>
   fst (ProfileTool_get_profile (example_tool 0) [0, 0, 0] [1, 0, 0] (3 / 10) True ''Gy'' False
          (ZPoint [0, 10, 0]))
     = Inr (Some [(0, 0, 0, 0)])"
proof -
  let ?tool = "example_tool_with ''GY'' (example_beam 0)"
  have z0: "resolve_zero_point ?tool ZNone = Inr (Vector [0, 0, 0])"
    and z1: "resolve_zero_point ?tool (ZPoint [0, 10, 0]) = Inr (Vector [0, 10, 0])"
    by (simp_all add: resolve_zero_point_def)
  have a0: "np_add [0, 0, 0] [0, 0, 0] = Inr [0, 0, 0]"
    and b0: "np_add [1, 0, 0] [0, 0, 0] = Inr [1, 0, 0]"
    and a1: "np_add [0, 0, 0] [0, 10, 0] = Inr [0, 10, 0]"
    and b1: "np_add [1, 0, 0] [0, 10, 0] = Inr [1, 10, 0]"
    by (simp_all add: np_add_def)
  have r0: "RTDoseReader_get_profile
       (configure_interpolator (example_reader\<lparr>dose_units := ''GY''\<rparr>))
       (Some [0, 0, 0]) (Some [1, 0, 0]) (3 / 10 * 10) True =
     Inr (Some (Rows [(0, 0, 0, 0)]),
          configure_interpolator (example_reader\<lparr>dose_units := ''GY''\<rparr>))"
    unfolding tenth_times_ten by (rule example_reader_run_short)
  have r1: "RTDoseReader_get_profile
       (configure_interpolator (example_reader\<lparr>dose_units := ''GY''\<rparr>))
       (Some [0, 10, 0]) (Some [1, 10, 0]) (3 / 10 * 10) True =
     Inr (Some (Rows [(0, 10, 0, 0)]),
          configure_interpolator (example_reader\<lparr>dose_units := ''GY''\<rparr>))"
    unfolding tenth_times_ten by (rule example_reader_run_short_outside)
  show ?thesis
    using tool_profile_finish [OF example_tool_readers(1) z0 a0 b0 r0, of "''Gy''" False]
      tool_profile_finish [OF example_tool_readers(1) z1 a1 b1 r1, of "''Gy''" False]
    by (simp add: example_tool_def example_units finish_simps)
qed

section \<open>The loop over the data lines\<close>

text \<open>
  A successful \<^verbatim>\<open>profiles_from_file\<close> holds one profile per data line, in order, each
  the result of that line on the tool as the lines before left it.
\<close>

lemma profiles_of_lines_each:
  assumes "fst (profiles_of_lines self lines spacing u n zp) = Inr profiles"
  shows "length profiles = length lines \<and>
         (\<forall>i<length lines. \<exists>state.
            fst (profile_of_line state (lines ! i) spacing u n zp) = Inr (profiles ! i))"
  using assms
proof (induction lines arbitrary: self profiles)
  case Nil
  then show ?case by simp
next
  case (Cons points rest)
  obtain r self' where line: "profile_of_line self points spacing u n zp = (r, self')"
    by (cases "profile_of_line self points spacing u n zp")
  obtain profile where r: "r = Inr profile"
    using Cons.prems line by (cases r) auto
  obtain r' self'' where rest: "profiles_of_lines self' rest spacing u n zp = (r', self'')"
    by (cases "profiles_of_lines self' rest spacing u n zp")
  obtain ps where r': "r' = Inr ps"
    using Cons.prems line r rest by (cases r') auto
  have profiles: "profiles = profile # ps"
    using Cons.prems line r rest r' by simp
  have ih: "length ps = length rest \<and>
         (\<forall>i<length rest. \<exists>state.
            fst (profile_of_line state (rest ! i) spacing u n zp) = Inr (ps ! i))"
    by (rule Cons.IH [of self']) (simp add: rest r')
  have first: "fst (profile_of_line self points spacing u n zp) = Inr profile"
    by (simp add: line r)
  show ?case
  proof (intro conjI allI impI)
    show "length profiles = length (points # rest)"
      using ih by (simp add: profiles)
  next
    fix i assume "i < length (points # rest)"
    then show "\<exists>state. fst (profile_of_line state ((points # rest) ! i) spacing u n zp)
        = Inr (profiles ! i)"
      using first ih by (cases i) (auto simp: profiles)
  qed
qed

lemma profiles_from_file_each:
  assumes "fst (profiles_from_file self lines skip_rows spacing u n zp) = Inr (Some profiles)"
  shows "length profiles = length lines - nat skip_rows \<and>
         (\<forall>i<length profiles. \<exists>state.
            fst (profile_of_line state (lines ! (nat skip_rows + i)) spacing u n zp)
              = Inr (profiles ! i))"
proof -
  from assms have "fst (profiles_of_lines self (drop (nat skip_rows) lines) spacing u n zp)
      = Inr profiles"
    by (auto simp: profiles_from_file_def split: option.splits prod.splits sum.splits)
  from profiles_of_lines_each [OF this] show ?thesis
    by auto
qed

section \<open>Centimetres\<close>

lemma np_linalg_norm_scale:
  "np_linalg_norm (map2 (-) [x1 * 10, y1 * 10, w1 * 10] [x0 * 10, y0 * 10, w0 * 10])
     = 10 * np_linalg_norm [x1 - x0, y1 - y0, w1 - w0]"
proof -
  define S where "S = (x1 - x0) * (x1 - x0) + ((y1 - y0) * (y1 - y0) + (w1 - w0) * (w1 - w0))"
  have e: "(x1 * 10 - x0 * 10) * (x1 * 10 - x0 * 10) + ((y1 * 10 - y0 * 10) * (y1 * 10 - y0 * 10)
          + (w1 * 10 - w0 * 10) * (w1 * 10 - w0 * 10)) = 100 * S"
    by (simp add: S_def algebra_simps)
  have lhs: "np_linalg_norm (map2 (-) [x1 * 10, y1 * 10, w1 * 10] [x0 * 10, y0 * 10, w0 * 10])
      = sqrt ((x1 * 10 - x0 * 10) * (x1 * 10 - x0 * 10) + ((y1 * 10 - y0 * 10) * (y1 * 10 - y0 * 10)
          + (w1 * 10 - w0 * 10) * (w1 * 10 - w0 * 10)))"
    by (simp add: np_linalg_norm_def)
  have rhs: "np_linalg_norm [x1 - x0, y1 - y0, w1 - w0] = sqrt S"
    by (simp add: np_linalg_norm_def S_def)
  show ?thesis
    unfolding lhs rhs e by (simp add: real_sqrt_mult sqrt_100)
qed

lemma evenly_spaced_scale:
  "map (\<lambda>(x, y, z). (x / 10, y / 10, z / 10))
       (evenly_spaced [x0 * 10, y0 * 10, w0 * 10] [x1 * 10, y1 * 10, w1 * 10] k)
     = evenly_spaced [x0, y0, w0] [x1, y1, w1] k"
  by (simp add: evenly_spaced_def Let_def algebra_simps add_divide_distrib diff_divide_distrib)

lemma coords_to_cm: "coords (to_cm r) = (case coords r of (x, y, z) \<Rightarrow> (x / 10, y / 10, z / 10))"
  by (simp add: coords_def to_cm_def split: prod.splits)

text \<open>
  C4. For a data line \<^verbatim>\<open>z0, z1, x0, x1, y0, y1\<close> of the points file (centimetres) and a
  spacing in centimetres, the endpoints handed to the dose reader are ten times
  \<open>(x0, y0, z0)\<close> and \<open>(x1, y1, z1)\<close> (plus the zero point, which is in millimetres), the
  spacing handed to it is ten times the spacing, and every reported coordinate is the
  reader's coordinate, less the zero point, divided by ten. In all, the reported
  coordinates are the evenly spaced points between the centimetre endpoints, as many as
  the centimetre distance and the centimetre spacing give. Every profile of
  \<^verbatim>\<open>profiles_from_file\<close> is the profile of such a line (\<open>profiles_from_file_each\<close>).
\<close>

theorem centimetre_boundary:
  assumes "fst (profile_of_line self points spacing u n zp) = Inr prof"
  shows "\<exists>reader z a b raw reader'.
     length points = 6 \<and> dose_reader self = Some reader \<and>
     resolve_zero_point self zp = Inr (Vector z) \<and>
     np_add [points ! 2 * 10, points ! 4 * 10, points ! 0 * 10] z = Inr a \<and>
     np_add [points ! 3 * 10, points ! 5 * 10, points ! 1 * 10] z = Inr b \<and>
     RTDoseReader_get_profile reader (Some a) (Some b) (spacing * 10) True
       = Inr (Some (Rows raw), reader') \<and>
     map coords prof = map (\<lambda>(x, y, z', d).
         ((x - offset z 0) / 10, (y - offset z 1) / 10, (z' - offset z 2) / 10)) raw \<and>
     map coords prof = evenly_spaced [points ! 2, points ! 4, points ! 0]
         [points ! 3, points ! 5, points ! 1]
         (nat (\<lfloor>np_linalg_norm [points ! 3 - points ! 2, points ! 5 - points ! 4,
                                points ! 1 - points ! 0] / spacing\<rfloor> + 1))"
proof -
  let ?p0 = "[points ! 2 * 10, points ! 4 * 10, points ! 0 * 10]"
  let ?p1 = "[points ! 3 * 10, points ! 5 * 10, points ! 1 * 10]"
  from assms have len: "length points = 6"
    by (auto simp: profile_of_line_def split: if_splits)
  from assms len obtain profile where
    run: "fst (ProfileTool_get_profile self ?p0 ?p1 spacing True u n zp) = Inr (Some profile)"
    and prof: "prof = map to_cm profile"
    by (auto simp: profile_of_line_def Let_def split: prod.splits sum.splits option.splits)
  from tool_profile_success [OF run] obtain reader z a b raw reader' shifted converted where
    steps: "dose_reader self = Some reader" "resolve_zero_point self zp = Inr (Vector z)"
      "np_add ?p0 z = Inr a" "np_add ?p1 z = Inr b"
      "RTDoseReader_get_profile reader (Some a) (Some b) (spacing * 10) True
         = Inr (Some (Rows raw), reader')"
    and shifted: "subtract_zero_point (Vector z) raw = Inr shifted"
    and converted: "convert_dose_units (dose_units reader') u shifted = Inr converted"
    and norm: "normalize_profile (self\<lparr>dose_reader := Some reader'\<rparr>) n converted = Inr profile"
    by blast
  from subtract_zero_point_offset [OF shifted] have
    sh: "shifted = map (\<lambda>(x, y, z', d).
           (x - offset z 0, y - offset z 1, z' - offset z 2, d)) raw"
    by auto
  have c: "map coords profile = map coords shifted"
    using convert_dose_units_coords [OF converted] normalize_profile_coords [OF norm] by simp
  have mm: "map coords prof = map (\<lambda>(x, y, z', d).
         ((x - offset z 0) / 10, (y - offset z 1) / 10, (z' - offset z 2) / 10)) raw"
  proof -
    have "map coords prof = map (\<lambda>(x, y, z). (x / 10, y / 10, z / 10)) (map coords profile)"
      by (simp add: prof coords_to_cm comp_def)
    also have "\<dots> = map (\<lambda>(x, y, z', d).
         ((x - offset z 0) / 10, (y - offset z 1) / 10, (z' - offset z 2) / 10)) raw"
      by (simp add: c sh comp_def case_prod_beta coords_def)
    finally show ?thesis .
  qed
  have pc: "map coords prof = map (\<lambda>(x, y, z). (x / 10, y / 10, z / 10)) (map coords profile)"
    by (simp add: prof coords_to_cm comp_def)
  have ev: "map coords profile = evenly_spaced ?p0 ?p1
          (nat (\<lfloor>np_linalg_norm (map2 (-) ?p1 ?p0) / (spacing * 10)\<rfloor> + 1))"
    by (rule tool_profile_coords [OF _ _ run]) simp_all
  have k: "np_linalg_norm (map2 (-) ?p1 ?p0) / (spacing * 10)
      = np_linalg_norm [points ! 3 - points ! 2, points ! 5 - points ! 4,
                        points ! 1 - points ! 0] / spacing"
    unfolding np_linalg_norm_scale by simp
  have cm: "map coords prof = evenly_spaced [points ! 2, points ! 4, points ! 0]
         [points ! 3, points ! 5, points ! 1]
         (nat (\<lfloor>np_linalg_norm [points ! 3 - points ! 2, points ! 5 - points ! 4,
                                points ! 1 - points ! 0] / spacing\<rfloor> + 1))"
    unfolding pc ev k by (rule evenly_spaced_scale)
  show ?thesis
    using len steps mm cm by blast
qed

lemma example_line:
  "fst (profile_of_line (example_tool 0) [0, 0, 0, 1, 0, 0] (3 / 10) ''Gy'' False ZNone)
     = Inr [(0, 0, 0, 0), (1 / 3, 0, 0, 1 / 3), (2 / 3, 0, 0, 2 / 3), (1, 0, 0, 1)]"
proof -
  obtain t where t: "ProfileTool_get_profile (example_tool 0) [0, 0, 0] [10, 0, 0] (3 / 10) True
      ''Gy'' False ZNone
     = (Inr (Some [(0, 0, 0, 0), (10 / 3, 0, 0, 1 / 3), (20 / 3, 0, 0, 2 / 3), (10, 0, 0, 1)]), t)"
    using example_profile_gy by (metis prod.collapse)
  show ?thesis
    by (simp add: profile_of_line_def t to_cm_def)
qed

text \<open>A line from the origin to 1 cm along x, sampled every 0.3 cm.\<close>

theorem centimetre_boundary_witness:
  "fst (profile_of_line (example_tool 0) [0, 0, 0, 1, 0, 0] (3 / 10) ''Gy'' False ZNone)
     = Inr [(0, 0, 0, 0), (1 / 3, 0, 0, 1 / 3), (2 / 3, 0, 0, 2 / 3), (1, 0, 0, 1)] \<and>
   map coords [(0, 0, 0, 0), (1 / 3, 0, 0, 1 / 3), (2 / 3, 0, 0, 2 / 3), (1, 0, 0, 1)]
     = evenly_spaced [0, 0, 0] [1, 0, 0] 4"
proof -
  have n: "nat (\<lfloor>np_linalg_norm [1 - 0, 0 - 0, 0 - 0] / (3 / 10)\<rfloor> + 1) = 4"
    by (simp add: np_linalg_norm_def)
  show ?thesis
    using centimetre_boundary [OF example_line] example_line n by auto
qed

end
